theory Spec2Isabelle
  imports Complex_Main "HOL-Library.Word"
begin

unbundle bit_operations_syntax

section \<open>The transform cache (genscene.cpp, TransformCache::Lookup)\<close>

text \<open>
  The cache is a \<^verbatim>\<open>std::unordered_set<Transform *>\<close> together with the allocator the
  stored objects come from. A stored pointer is modelled as an address (a natural
  number) paired with the value it points to; the values are never written after
  insertion, so the pair is constant. The list keeps the insertion order.

  \<^verbatim>\<open>Transform::Hash\<close>, \<^verbatim>\<open>Transform::operator==\<close> and the container's growth policy
  (the bucket count after an insertion) are defined outside the available sources and
  are parameters of the model. The two statistics counters that \<^verbatim>\<open>Lookup\<close> increments
  are not part of the cache and are left out.
\<close>

record 't CacheEnv =
  Hash :: "'t \<Rightarrow> nat"
  T_eq :: "'t \<Rightarrow> 't \<Rightarrow> bool"
  rehash :: "nat \<Rightarrow> nat \<Rightarrow> nat"

record 't TransformCache =
  hashTable :: "(nat \<times> 't) list"
  bucket_count :: nat
  next_object :: nat

text \<open>
  Modelled from the spec: the hash functor of the container is declared in the header,
  which is not among the sources. The spec has the candidates bucketed by a hash
  computed from the transform's own content: bucket \<open>k\<close> holds the stored pointers whose
  pointee hashes to \<open>k\<close> modulo the bucket count.
\<close>

definition bucket :: "('t, 'x) CacheEnv_scheme \<Rightarrow> 't TransformCache \<Rightarrow> nat \<Rightarrow> (nat \<times> 't) list" where
  "bucket E c k = filter (\<lambda>pv. Hash E (snd pv) mod bucket_count c = k) (hashTable c)"

text \<open>
  \<^verbatim>\<open>alloc.new_object<Transform>(t)\<close> followed by \<^verbatim>\<open>hashTable.insert(tptr)\<close>: a fresh
  address, the new element, and whatever bucket count the container chooses.
\<close>

definition insert_new :: "('t, 'x) CacheEnv_scheme \<Rightarrow> 't TransformCache \<Rightarrow> 't \<Rightarrow> nat \<times> 't TransformCache" where
  "insert_new E c t =
     (let tptr = next_object c
      in (tptr, c\<lparr>hashTable := hashTable c @ [(tptr, t)],
                  bucket_count := rehash E (Suc (length (hashTable c))) (bucket_count c),
                  next_object := Suc tptr\<rparr>))"

text \<open>
  \<^verbatim>\<open>Lookup\<close>: unless the table is empty, the bucket of the argument's hash is searched
  for a pointer whose pointee equals the argument, and the first one found is returned;
  otherwise a copy of the argument is allocated, inserted and returned.
\<close>

definition Lookup :: "('t, 'x) CacheEnv_scheme \<Rightarrow> 't TransformCache \<Rightarrow> 't \<Rightarrow> nat \<times> 't TransformCache" where
  "Lookup E c t =
     (if hashTable c \<noteq> [] then
        (case find (\<lambda>pv. T_eq E (snd pv) t) (bucket E c (Hash E t mod bucket_count c)) of
           Some pv \<Rightarrow> (fst pv, c)
         | None \<Rightarrow> insert_new E c t)
      else insert_new E c t)"

text \<open>A freshly constructed cache, with whatever bucket count and first address.\<close>

definition empty_cache :: "nat \<Rightarrow> nat \<Rightarrow> 't TransformCache" where
  "empty_cache n0 a0 = \<lparr>hashTable = [], bucket_count = n0, next_object = a0\<rparr>"








section \<open>The scene container (genscene.cpp, class GeneralScene)\<close>

subsection \<open>Values carried by directives and entities\<close>

text \<open>
  \<^verbatim>\<open>Float\<close> arguments are carried through the interpreter unchanged and are only ever
  handed to the transform constructors; they are modelled by exact reals. A source
  location is a file name with a line and a column; a colour space is one of the
  process-wide named objects and is identified by its name.
\<close>

type_synonym Float = real

datatype FileLoc = FileLoc string int int

type_synonym RGBColorSpace = string

definition sRGB :: RGBColorSpace where
  "sRGB = ''srgb''"

record ParsedParameter =
  pp_type :: string
  pp_name :: string
  pp_loc :: FileLoc
  pp_floats :: "Float list"
  pp_ints :: "int list"
  pp_strings :: "string list"
  pp_bools :: "bool list"
  mayBeUnused :: bool
  pp_colorSpace :: "RGBColorSpace option"

type_synonym ParsedParameterVector = "ParsedParameter list"

text \<open>
  A parameter dictionary is built from the directive's own parameters, the inherited
  attribute list of its category (absent in the two-argument constructor) and a colour
  space. The constructor lives outside the available sources; the model records its
  three arguments. A default-constructed dictionary has no parameters and no colour space.
\<close>

datatype ParameterDictionary =
  ParameterDictionary ParsedParameterVector ParsedParameterVector "RGBColorSpace option"

definition ParameterDictionary_default :: ParameterDictionary where
  "ParameterDictionary_default = ParameterDictionary [] [] None"

text \<open>An animated transform holds two interned transforms (addresses in the cache)
  with their times; default-constructed, it holds none.\<close>

datatype AnimatedTransform =
  AnimatedTransform nat Float nat Float
| AnimatedTransform_default

datatype GeneralSceneEntity =
  GeneralSceneEntity (entity_name: string) (entity_parameters: ParameterDictionary) (entity_loc: FileLoc)

datatype TransformedSceneEntity =
  TransformedSceneEntity string ParameterDictionary FileLoc AnimatedTransform

type_synonym TextureSceneEntity = TransformedSceneEntity

datatype LightSceneEntity =
  LightSceneEntity string ParameterDictionary FileLoc AnimatedTransform string

datatype CameraSceneEntity =
  CameraSceneEntity string ParameterDictionary FileLoc AnimatedTransform string

record ShapeSceneEntity =
  shape_name :: string
  shape_parameters :: ParameterDictionary
  shape_loc :: FileLoc
  worldFromObject :: nat
  objectFromWorld :: nat
  shape_reverseOrientation :: bool
  materialIndex :: int
  materialName :: string
  lightIndex :: int
  insideMedium :: string
  outsideMedium :: string

record AnimatedShapeSceneEntity =
  ashape_name :: string
  ashape_parameters :: ParameterDictionary
  ashape_loc :: FileLoc
  ashape_worldFromObject :: AnimatedTransform
  ashape_identity :: nat
  ashape_reverseOrientation :: bool
  ashape_materialIndex :: int
  ashape_materialName :: string
  ashape_lightIndex :: int
  ashape_insideMedium :: string
  ashape_outsideMedium :: string

datatype InstanceSceneEntity =
  InstanceSceneEntity string FileLoc AnimatedTransform "nat option"

subsection \<open>Transform sets and the active-transform bit mask\<close>

text \<open>
  Modelled from the spec: the constants \<^verbatim>\<open>MaxTransforms\<close>, \<^verbatim>\<open>StartTransformBits\<close>,
  \<^verbatim>\<open>EndTransformBits\<close>, \<^verbatim>\<open>AllTransformsBits\<close> and the class \<^verbatim>\<open>TransformSet\<close> are
  declared in the header, which is not among the sources. The spec has a fixed-size
  array of two transforms indexed by the time sample (start, end) and a bit mask over the
  two indices whose default selects both.
\<close>

definition MaxTransforms :: nat where
  "MaxTransforms = 2"

definition StartTransformBits :: "32 word" where
  "StartTransformBits = push_bit 0 1"

definition EndTransformBits :: "32 word" where
  "EndTransformBits = push_bit 1 1"

definition AllTransformsBits :: "32 word" where
  "AllTransformsBits = push_bit MaxTransforms 1 - 1"

datatype 't TransformSet = TransformSet 't 't

fun ts_get :: "'t TransformSet \<Rightarrow> nat \<Rightarrow> 't" where
  "ts_get (TransformSet a b) i = (if i = 0 then a else b)"

fun ts_set :: "'t TransformSet \<Rightarrow> nat \<Rightarrow> 't \<Rightarrow> 't TransformSet" where
  "ts_set (TransformSet a b) i v = (if i = 0 then TransformSet v b else TransformSet a v)"

fun ts_map :: "('t \<Rightarrow> 't) \<Rightarrow> 't TransformSet \<Rightarrow> 't TransformSet" where
  "ts_map f (TransformSet a b) = TransformSet (f a) (f b)"

subsection \<open>Graphics state, API state, diagnostics\<close>

record GraphicsState =
  currentInsideMedium :: string
  currentOutsideMedium :: string
  currentMaterialIndex :: int
  currentMaterialName :: string
  areaLightName :: string
  areaLightParams :: ParameterDictionary
  areaLightLoc :: FileLoc
  colorSpace :: RGBColorSpace
  reverseOrientation :: bool
  shapeAttributes :: ParsedParameterVector
  lightAttributes :: ParsedParameterVector
  materialAttributes :: ParsedParameterVector
  mediumAttributes :: ParsedParameterVector
  textureAttributes :: ParsedParameterVector

text \<open>The member initialisers of the struct, then the constructor body
  (\<^verbatim>\<open>currentMaterialIndex = 0\<close>). A default \<^verbatim>\<open>FileLoc\<close> has an empty file name.\<close>

definition FileLoc_default :: FileLoc where
  "FileLoc_default = FileLoc [] 1 0"

definition GraphicsState_new :: GraphicsState where
  "GraphicsState_new =
     \<lparr>currentInsideMedium = [], currentOutsideMedium = [],
      currentMaterialIndex = 0, currentMaterialName = [],
      areaLightName = [], areaLightParams = ParameterDictionary_default,
      areaLightLoc = FileLoc_default,
      colorSpace = sRGB, reverseOrientation = False,
      shapeAttributes = [], lightAttributes = [], materialAttributes = [],
      mediumAttributes = [], textureAttributes = []\<rparr>"

datatype APIState = Uninitialized | OptionsBlock | WorldBlock

text \<open>
  \<^verbatim>\<open>Error\<close> and \<^verbatim>\<open>Warning\<close> report and return: the report (location, format string,
  arguments) is appended to a log kept with the scene. \<^verbatim>\<open>ErrorExit\<close> and a failed
  \<^verbatim>\<open>CHECK\<close> end the process: the directive returns the left injection and no scene.
  Reading \<^verbatim>\<open>back()\<close> of an empty vector, or popping one, has no defined behaviour in
  C++; the model makes it a third way of ending.
\<close>

datatype Diagnostic = Error FileLoc string "string list" | Warning FileLoc string "string list"

datatype Fatal = ErrorExit string "string list" | CHECK_failed string | Undefined_back string

subsection \<open>The container\<close>

text \<open>
  One field per data member that the directives read or write. A \<^verbatim>\<open>std::vector\<close> is a
  list whose last element is \<^verbatim>\<open>back()\<close>; a \<^verbatim>\<open>std::map\<close> is a partial function. The
  pointer \<^verbatim>\<open>currentInstance\<close> points at the entry of \<^verbatim>\<open>instanceDefinitions\<close> for a
  name, or is null: it is modelled by that name. Entries are never erased.
\<close>

record 't GeneralScene =
  currentApiState :: APIState
  graphicsState :: GraphicsState
  curTransform :: "'t TransformSet"
  activeTransformBits :: "32 word"
  namedCoordinateSystems :: "string \<rightharpoonup> 't TransformSet"
  transformStartTime :: Float
  transformEndTime :: Float
  filter_entity :: GeneralSceneEntity
  film :: GeneralSceneEntity
  sampler :: GeneralSceneEntity
  accelerator :: GeneralSceneEntity
  integrator :: GeneralSceneEntity
  camera :: CameraSceneEntity
  cameraFromWorldT :: "'t TransformSet"
  media :: "string \<rightharpoonup> TransformedSceneEntity"
  haveScatteringMedia :: bool
  pushedGraphicsStates :: "GraphicsState list"
  pushedTransforms :: "'t TransformSet list"
  pushedActiveTransformBits :: "32 word list"
  pushStack :: "(char \<times> FileLoc) list"
  floatTextures :: "(string \<times> TextureSceneEntity) list"
  spectrumTextures :: "(string \<times> TextureSceneEntity) list"
  materials :: "GeneralSceneEntity list"
  namedMaterials :: "string \<rightharpoonup> GeneralSceneEntity"
  lights :: "LightSceneEntity list"
  areaLights :: "GeneralSceneEntity list"
  shapes :: "ShapeSceneEntity list"
  animatedShapes :: "AnimatedShapeSceneEntity list"
  instanceDefinitions :: "string \<rightharpoonup> ShapeSceneEntity list \<times> AnimatedShapeSceneEntity list"
  currentInstance :: "string option"
  instances :: "InstanceSceneEntity list"
  transformCache :: "'t TransformCache"
  diagnostics :: "Diagnostic list"

definition log_Error :: "FileLoc \<Rightarrow> string \<Rightarrow> string list \<Rightarrow> 't GeneralScene \<Rightarrow> 't GeneralScene" where
  "log_Error loc fmt args s = s\<lparr>diagnostics := diagnostics s @ [Error loc fmt args]\<rparr>"

definition log_Warning :: "FileLoc \<Rightarrow> string \<Rightarrow> string list \<Rightarrow> 't GeneralScene \<Rightarrow> 't GeneralScene" where
  "log_Warning loc fmt args s = s\<lparr>diagnostics := diagnostics s @ [Warning loc fmt args]\<rparr>"

subsection \<open>What the interpreter takes from the transform library\<close>

text \<open>
  The transform type and its operations (\<^verbatim>\<open>pbrt::Transform()\<close>, the product, \<^verbatim>\<open>Inverse\<close>,
  \<^verbatim>\<open>Transpose\<close>, the constructor from a 4x4 matrix, \<^verbatim>\<open>Translate\<close>, \<^verbatim>\<open>Rotate\<close>,
  \<^verbatim>\<open>Scale\<close>, \<^verbatim>\<open>LookAt\<close>, the application to a point) and \<^verbatim>\<open>RGBColorSpace::GetNamed\<close>
  are defined outside the available sources. They are parameters of the model, in one
  record that extends the parameters of the cache; \<open>initial_buckets\<close> and
  \<open>first_address\<close> are the bucket count and the allocator state of a new cache.

  Modelled from the spec: what \<^verbatim>\<open>WorldEnd\<close> does after it has emptied the stacks (the check
  that a render function is set, the call of the render function, the statistics and the
  report of rare check failures) is outside the available sources. The spec has the
  render driver consume the completed container through read-only lists and maps, so the
  hand-off changes no member; it ends the process or returns, and \<open>hand_off\<close> is that
  outcome for the container handed over.
\<close>

record 't SceneEnv = "'t CacheEnv" +
  T_identity :: "'t"
  T_mul :: "'t \<Rightarrow> 't \<Rightarrow> 't"
  T_Inverse :: "'t \<Rightarrow> 't"
  T_Transpose :: "'t \<Rightarrow> 't"
  T_fromMatrix :: "Float list \<Rightarrow> 't"
  T_Translate :: "Float \<times> Float \<times> Float \<Rightarrow> 't"
  T_Rotate :: "Float \<Rightarrow> Float \<times> Float \<times> Float \<Rightarrow> 't"
  T_Scale :: "Float \<Rightarrow> Float \<Rightarrow> Float \<Rightarrow> 't"
  T_LookAt :: "Float \<times> Float \<times> Float \<Rightarrow> Float \<times> Float \<times> Float \<Rightarrow> Float \<times> Float \<times> Float \<Rightarrow> 't"
  T_apply :: "'t \<Rightarrow> Float \<times> Float \<times> Float \<Rightarrow> Float \<times> Float \<times> Float"
  GetNamed :: "string \<Rightarrow> RGBColorSpace option"
  initial_buckets :: nat
  first_address :: nat
  hand_off :: "'t GeneralScene \<Rightarrow> Fatal option"

text \<open>Modelled from the spec: \<^verbatim>\<open>TransformSet::IsAnimated\<close> and \<^verbatim>\<open>Inverse\<close> on a
  transform set are declared in the header. A set is animated when its transform differs
  between the two time indices; the inverse is taken slot by slot.\<close>

fun IsAnimated :: "('t, 'x) SceneEnv_scheme \<Rightarrow> 't TransformSet \<Rightarrow> bool" where
  "IsAnimated E (TransformSet a b) = (\<not> T_eq E a b)"

definition Inverse_set :: "('t, 'x) SceneEnv_scheme \<Rightarrow> 't TransformSet \<Rightarrow> 't TransformSet" where
  "Inverse_set E ts = ts_map (T_Inverse E) ts"

text \<open>
  The constructor. It sets the API state, allocates the graphics state, appends the
  default material and names the default filter and film. Every other member keeps the
  value of its initialiser in the class declaration (the header is not among the
  sources): containers are empty, the pointer is null, and, modelled from the spec, the
  current transform is the identity on both slots, the bit mask selects both, and the
  remaining entities are default-constructed.
\<close>

definition GeneralSceneEntity_default :: GeneralSceneEntity where
  "GeneralSceneEntity_default = GeneralSceneEntity [] ParameterDictionary_default FileLoc_default"

definition GeneralScene_new :: "('t, 'x) SceneEnv_scheme \<Rightarrow> 't GeneralScene" where
  "GeneralScene_new E =
     \<lparr>currentApiState = OptionsBlock,
      graphicsState = GraphicsState_new,
      curTransform = TransformSet (T_identity E) (T_identity E),
      activeTransformBits = AllTransformsBits,
      namedCoordinateSystems = Map.empty,
      transformStartTime = 0,
      transformEndTime = 1,
      filter_entity = GeneralSceneEntity ''gaussian'' ParameterDictionary_default FileLoc_default,
      film = GeneralSceneEntity ''rgb'' ParameterDictionary_default FileLoc_default,
      sampler = GeneralSceneEntity_default,
      accelerator = GeneralSceneEntity_default,
      integrator = GeneralSceneEntity_default,
      camera = CameraSceneEntity [] ParameterDictionary_default FileLoc_default AnimatedTransform_default [],
      cameraFromWorldT = TransformSet (T_identity E) (T_identity E),
      media = Map.empty,
      haveScatteringMedia = False,
      pushedGraphicsStates = [],
      pushedTransforms = [],
      pushedActiveTransformBits = [],
      pushStack = [],
      floatTextures = [],
      spectrumTextures = [],
      materials = [GeneralSceneEntity ''diffuse'' (ParameterDictionary [] [] (Some sRGB)) FileLoc_default],
      namedMaterials = Map.empty,
      lights = [],
      areaLights = [],
      shapes = [],
      animatedShapes = [],
      instanceDefinitions = Map.empty,
      currentInstance = None,
      instances = [],
      transformCache = empty_cache (initial_buckets E) (first_address E),
      diagnostics = []\<rparr>"

subsection \<open>The macros\<close>

text \<open>Each \<^verbatim>\<open>VERIFY_\<close> macro either reports and returns from the directive, or lets
  the rest of the body run; \<open>rest\<close> is the result of that rest.\<close>

definition VERIFY_INITIALIZED ::
    "string \<Rightarrow> FileLoc \<Rightarrow> 't GeneralScene \<Rightarrow> Fatal + 't GeneralScene \<Rightarrow> Fatal + 't GeneralScene" where
  "VERIFY_INITIALIZED func loc s rest =
     (if currentApiState s = Uninitialized
      then Inr (log_Error loc ''pbrtInit() must be before calling %s(). Ignoring.'' [func] s)
      else rest)"

definition VERIFY_OPTIONS ::
    "string \<Rightarrow> FileLoc \<Rightarrow> 't GeneralScene \<Rightarrow> Fatal + 't GeneralScene \<Rightarrow> Fatal + 't GeneralScene" where
  "VERIFY_OPTIONS func loc s rest =
     VERIFY_INITIALIZED func loc s
       (if currentApiState s = WorldBlock
        then Inr (log_Error loc ''Options cannot be set inside world block; %s not allowed.  Ignoring.'' [func] s)
        else rest)"

definition VERIFY_WORLD ::
    "string \<Rightarrow> FileLoc \<Rightarrow> 't GeneralScene \<Rightarrow> Fatal + 't GeneralScene \<Rightarrow> Fatal + 't GeneralScene" where
  "VERIFY_WORLD func loc s rest =
     VERIFY_INITIALIZED func loc s
       (if currentApiState s = OptionsBlock
        then Inr (log_Error loc ''Scene description must be inside world block; %s not allowed. Ignoring.'' [func] s)
        else rest)"

text \<open>\<^verbatim>\<open>FOR_ACTIVE_TRANSFORMS(curTransform[i] = ...)\<close>: for each index below
  \<^verbatim>\<open>MaxTransforms\<close> whose bit is set, the slot is assigned the expression, here a function
  of the slot's current value.\<close>

definition FOR_ACTIVE_TRANSFORMS :: "32 word \<Rightarrow> ('t \<Rightarrow> 't) \<Rightarrow> 't TransformSet \<Rightarrow> 't TransformSet" where
  "FOR_ACTIVE_TRANSFORMS bits expr ts =
     fold (\<lambda>i ts'. if bits AND push_bit i 1 \<noteq> 0 then ts_set ts' i (expr (ts_get ts' i)) else ts')
       [0..<MaxTransforms] ts"

definition WARN_IF_ANIMATED_TRANSFORM ::
    "('t, 'x) SceneEnv_scheme \<Rightarrow> string \<Rightarrow> FileLoc \<Rightarrow> 't GeneralScene \<Rightarrow> 't GeneralScene" where
  "WARN_IF_ANIMATED_TRANSFORM E func loc s =
     (if IsAnimated E (curTransform s)
      then log_Warning loc ''Animated transformations set; ignoring for %s and using the start transform only'' [func] s
      else s)"

text \<open>Modelled from the spec: \<^verbatim>\<open>GetCTM\<close> and \<^verbatim>\<open>CTMIsAnimated\<close> are inline members of the
  class declaration. The spec freezes the working current transform at a time index,
  and calls it animated when it differs between the two indices.\<close>

definition GetCTM :: "'t GeneralScene \<Rightarrow> nat \<Rightarrow> 't" where
  "GetCTM s i = ts_get (curTransform s) i"

definition CTMIsAnimated :: "('t, 'x) SceneEnv_scheme \<Rightarrow> 't GeneralScene \<Rightarrow> bool" where
  "CTMIsAnimated E s = IsAnimated E (curTransform s)"

text \<open>The pair of lookups that freezes the current transform into an animated
  transform, in the order the arguments are written (C++ leaves the order of the two
  calls open; only the numbering of fresh addresses depends on it).\<close>

definition freeze_CTM :: "('t, 'x) SceneEnv_scheme \<Rightarrow> 't GeneralScene \<Rightarrow> AnimatedTransform \<times> 't TransformCache" where
  "freeze_CTM E s =
     (let r0 = Lookup E (transformCache s) (GetCTM s 0);
          r1 = Lookup E (snd r0) (GetCTM s 1)
      in (AnimatedTransform (fst r0) (transformStartTime s) (fst r1) (transformEndTime s), snd r1))"

subsection \<open>Transform directives\<close>

definition Identity :: "('t, 'x) SceneEnv_scheme \<Rightarrow> FileLoc \<Rightarrow> 't GeneralScene \<Rightarrow> Fatal + 't GeneralScene" where
  "Identity E loc s =
     VERIFY_INITIALIZED ''Identity'' loc s
       (Inr (s\<lparr>curTransform :=
               FOR_ACTIVE_TRANSFORMS (activeTransformBits s) (\<lambda>cur. T_identity E) (curTransform s)\<rparr>))"

definition Translate ::
    "('t, 'x) SceneEnv_scheme \<Rightarrow> Float \<Rightarrow> Float \<Rightarrow> Float \<Rightarrow> FileLoc \<Rightarrow> 't GeneralScene \<Rightarrow> Fatal + 't GeneralScene" where
  "Translate E dx dy dz loc s =
     VERIFY_INITIALIZED ''Translate'' loc s
       (Inr (s\<lparr>curTransform :=
               FOR_ACTIVE_TRANSFORMS (activeTransformBits s)
                 (\<lambda>cur. T_mul E cur (T_Translate E (dx, dy, dz))) (curTransform s)\<rparr>))"

definition Transform ::
    "('t, 'x) SceneEnv_scheme \<Rightarrow> Float list \<Rightarrow> FileLoc \<Rightarrow> 't GeneralScene \<Rightarrow> Fatal + 't GeneralScene" where
  "Transform E tr loc s =
     VERIFY_INITIALIZED ''Transform'' loc s
       (Inr (s\<lparr>curTransform :=
               FOR_ACTIVE_TRANSFORMS (activeTransformBits s)
                 (\<lambda>cur. T_Transpose E (T_fromMatrix E tr)) (curTransform s)\<rparr>))"

definition ConcatTransform ::
    "('t, 'x) SceneEnv_scheme \<Rightarrow> Float list \<Rightarrow> FileLoc \<Rightarrow> 't GeneralScene \<Rightarrow> Fatal + 't GeneralScene" where
  "ConcatTransform E tr loc s =
     VERIFY_INITIALIZED ''ConcatTransform'' loc s
       (Inr (s\<lparr>curTransform :=
               FOR_ACTIVE_TRANSFORMS (activeTransformBits s)
                 (\<lambda>cur. T_mul E cur (T_Transpose E (T_fromMatrix E tr))) (curTransform s)\<rparr>))"

definition Rotate ::
    "('t, 'x) SceneEnv_scheme \<Rightarrow> Float \<Rightarrow> Float \<Rightarrow> Float \<Rightarrow> Float \<Rightarrow> FileLoc \<Rightarrow> 't GeneralScene
       \<Rightarrow> Fatal + 't GeneralScene" where
  "Rotate E angle dx dy dz loc s =
     VERIFY_INITIALIZED ''Rotate'' loc s
       (Inr (s\<lparr>curTransform :=
               FOR_ACTIVE_TRANSFORMS (activeTransformBits s)
                 (\<lambda>cur. T_mul E cur (T_Rotate E angle (dx, dy, dz))) (curTransform s)\<rparr>))"

definition Scale ::
    "('t, 'x) SceneEnv_scheme \<Rightarrow> Float \<Rightarrow> Float \<Rightarrow> Float \<Rightarrow> FileLoc \<Rightarrow> 't GeneralScene \<Rightarrow> Fatal + 't GeneralScene" where
  "Scale E sx sy sz loc s =
     VERIFY_INITIALIZED ''Scale'' loc s
       (Inr (s\<lparr>curTransform :=
               FOR_ACTIVE_TRANSFORMS (activeTransformBits s)
                 (\<lambda>cur. T_mul E cur (T_Scale E sx sy sz)) (curTransform s)\<rparr>))"

definition LookAt ::
    "('t, 'x) SceneEnv_scheme \<Rightarrow> Float \<times> Float \<times> Float \<Rightarrow> Float \<times> Float \<times> Float \<Rightarrow> Float \<times> Float \<times> Float
       \<Rightarrow> FileLoc \<Rightarrow> 't GeneralScene \<Rightarrow> Fatal + 't GeneralScene" where
  "LookAt E eye look up loc s =
     VERIFY_INITIALIZED ''LookAt'' loc s
       (let lookAt = T_LookAt E eye look up
        in Inr (s\<lparr>curTransform :=
                  FOR_ACTIVE_TRANSFORMS (activeTransformBits s)
                    (\<lambda>cur. T_mul E cur lookAt) (curTransform s)\<rparr>))"

definition CoordinateSystem :: "string \<Rightarrow> FileLoc \<Rightarrow> 't GeneralScene \<Rightarrow> Fatal + 't GeneralScene" where
  "CoordinateSystem name loc s =
     VERIFY_INITIALIZED ''CoordinateSystem'' loc s
       (Inr (s\<lparr>namedCoordinateSystems := (namedCoordinateSystems s)(name \<mapsto> curTransform s)\<rparr>))"

definition CoordSysTransform :: "string \<Rightarrow> FileLoc \<Rightarrow> 't GeneralScene \<Rightarrow> Fatal + 't GeneralScene" where
  "CoordSysTransform name loc s =
     VERIFY_INITIALIZED ''CoordSysTransform'' loc s
       (case namedCoordinateSystems s name of
          Some ts \<Rightarrow> Inr (s\<lparr>curTransform := ts\<rparr>)
        | None \<Rightarrow> Inr (log_Warning loc ''Could not find named coordinate system %s'' [name] s))"

definition ActiveTransformAll :: "FileLoc \<Rightarrow> 't GeneralScene \<Rightarrow> Fatal + 't GeneralScene" where
  "ActiveTransformAll loc s = Inr (s\<lparr>activeTransformBits := AllTransformsBits\<rparr>)"

definition ActiveTransformEndTime :: "FileLoc \<Rightarrow> 't GeneralScene \<Rightarrow> Fatal + 't GeneralScene" where
  "ActiveTransformEndTime loc s = Inr (s\<lparr>activeTransformBits := EndTransformBits\<rparr>)"

definition ActiveTransformStartTime :: "FileLoc \<Rightarrow> 't GeneralScene \<Rightarrow> Fatal + 't GeneralScene" where
  "ActiveTransformStartTime loc s = Inr (s\<lparr>activeTransformBits := StartTransformBits\<rparr>)"

definition TransformTimes :: "Float \<Rightarrow> Float \<Rightarrow> FileLoc \<Rightarrow> 't GeneralScene \<Rightarrow> Fatal + 't GeneralScene" where
  "TransformTimes start end' loc s =
     VERIFY_OPTIONS ''TransformTimes'' loc s
       (Inr (s\<lparr>transformStartTime := start, transformEndTime := end'\<rparr>))"

subsection \<open>Options\<close>

definition ColorSpace :: "('t, 'x) SceneEnv_scheme \<Rightarrow> string \<Rightarrow> FileLoc \<Rightarrow> 't GeneralScene \<Rightarrow> Fatal + 't GeneralScene" where
  "ColorSpace E n loc s =
     VERIFY_INITIALIZED ''RGBColorSpace'' loc s
       (case GetNamed E n of
          Some cs \<Rightarrow> Inr (s\<lparr>graphicsState := (graphicsState s)\<lparr>colorSpace := cs\<rparr>\<rparr>)
        | None \<Rightarrow> Inr (log_Error loc ''%s: color space unknown'' [n] s))"

definition PixelFilter :: "string \<Rightarrow> ParsedParameterVector \<Rightarrow> FileLoc \<Rightarrow> 't GeneralScene \<Rightarrow> Fatal + 't GeneralScene" where
  "PixelFilter name params loc s =
     (let dict = ParameterDictionary params [] (Some (colorSpace (graphicsState s)))
      in VERIFY_OPTIONS ''PixelFilter'' loc s
           (Inr (s\<lparr>filter_entity := GeneralSceneEntity name dict loc\<rparr>)))"

definition Film :: "string \<Rightarrow> ParsedParameterVector \<Rightarrow> FileLoc \<Rightarrow> 't GeneralScene \<Rightarrow> Fatal + 't GeneralScene" where
  "Film type params loc s =
     (let dict = ParameterDictionary params [] (Some (colorSpace (graphicsState s)))
      in VERIFY_OPTIONS ''Film'' loc s
           (Inr (s\<lparr>film := GeneralSceneEntity type dict loc\<rparr>)))"

definition Sampler :: "string \<Rightarrow> ParsedParameterVector \<Rightarrow> FileLoc \<Rightarrow> 't GeneralScene \<Rightarrow> Fatal + 't GeneralScene" where
  "Sampler name params loc s =
     (let dict = ParameterDictionary params [] (Some (colorSpace (graphicsState s)))
      in VERIFY_OPTIONS ''Sampler'' loc s
           (Inr (s\<lparr>sampler := GeneralSceneEntity name dict loc\<rparr>)))"

definition Accelerator :: "string \<Rightarrow> ParsedParameterVector \<Rightarrow> FileLoc \<Rightarrow> 't GeneralScene \<Rightarrow> Fatal + 't GeneralScene" where
  "Accelerator name params loc s =
     (let dict = ParameterDictionary params [] (Some (colorSpace (graphicsState s)))
      in VERIFY_OPTIONS ''Accelerator'' loc s
           (Inr (s\<lparr>accelerator := GeneralSceneEntity name dict loc\<rparr>)))"

definition Integrator :: "string \<Rightarrow> ParsedParameterVector \<Rightarrow> FileLoc \<Rightarrow> 't GeneralScene \<Rightarrow> Fatal + 't GeneralScene" where
  "Integrator name params loc s =
     (let dict = ParameterDictionary params [] (Some (colorSpace (graphicsState s)))
      in VERIFY_OPTIONS ''Integrator'' loc s
           (Inr (s\<lparr>integrator := GeneralSceneEntity name dict loc\<rparr>)))"

text \<open>The camera: the translation-only part of the camera transform is kept in
  \<^verbatim>\<open>cameraFromWorldT\<close>, the inverse of the current transform is registered under
  \<open>camera\<close>, and the camera entity gets the interned inverse of the rest.\<close>

definition camera_translation :: "('t, 'x) SceneEnv_scheme \<Rightarrow> 't \<Rightarrow> 't" where
  "camera_translation E worldFromCamera =
     (case T_apply E worldFromCamera (0, 0, 0) of
        (x, y, z) \<Rightarrow> T_Translate E (- x, - y, - z))"

definition Camera ::
    "('t, 'x) SceneEnv_scheme \<Rightarrow> string \<Rightarrow> ParsedParameterVector \<Rightarrow> FileLoc \<Rightarrow> 't GeneralScene \<Rightarrow> Fatal + 't GeneralScene" where
  "Camera E name params loc s =
     (let dict = ParameterDictionary params [] (Some (colorSpace (graphicsState s)))
      in VERIFY_OPTIONS ''Camera'' loc s
           (let cameraFromWorld = curTransform s;
                worldFromCamera = Inverse_set E (curTransform s);
                cfwT = ts_map (camera_translation E) worldFromCamera;
                r0 = Lookup E (transformCache s)
                       (T_Inverse E (T_mul E (ts_get cameraFromWorld 0) (T_Inverse E (ts_get cfwT 0))));
                r1 = Lookup E (snd r0)
                       (T_Inverse E (T_mul E (ts_get cameraFromWorld 1) (T_Inverse E (ts_get cfwT 1))));
                worldFromCameraAT =
                  AnimatedTransform (fst r0) (transformStartTime s) (fst r1) (transformEndTime s)
            in Inr (s\<lparr>cameraFromWorldT := cfwT,
                      namedCoordinateSystems :=
                        (namedCoordinateSystems s)(''camera'' \<mapsto> Inverse_set E cameraFromWorld),
                      transformCache := snd r1,
                      camera := CameraSceneEntity name dict loc worldFromCameraAT
                                  (currentOutsideMedium (graphicsState s))\<rparr>)))"

definition MakeNamedMedium ::
    "('t, 'x) SceneEnv_scheme \<Rightarrow> string \<Rightarrow> ParsedParameterVector \<Rightarrow> FileLoc \<Rightarrow> 't GeneralScene \<Rightarrow> Fatal + 't GeneralScene" where
  "MakeNamedMedium E name params loc s =
     VERIFY_INITIALIZED ''MakeNamedMedium'' loc s
       (let s1 = WARN_IF_ANIMATED_TRANSFORM E ''MakeNamedMedium'' loc s;
            dict = ParameterDictionary params (mediumAttributes (graphicsState s1))
                     (Some (colorSpace (graphicsState s1)))
        in if media s1 name \<noteq> None
           then Inl (ErrorExit ''Named medium %s redefined.'' [name])
           else (let fr = freeze_CTM E s1
                 in Inr (s1\<lparr>transformCache := snd fr,
                           media := (media s1)(name \<mapsto> TransformedSceneEntity name dict loc (fst fr))\<rparr>)))"

definition MediumInterface :: "string \<Rightarrow> string \<Rightarrow> FileLoc \<Rightarrow> 't GeneralScene \<Rightarrow> Fatal + 't GeneralScene" where
  "MediumInterface insideName outsideName loc s =
     VERIFY_INITIALIZED ''MediumInterface'' loc s
       (Inr (s\<lparr>graphicsState := (graphicsState s)\<lparr>currentInsideMedium := insideName,
                                                   currentOutsideMedium := outsideName\<rparr>,
               haveScatteringMedia := True\<rparr>))"

definition WorldBegin :: "('t, 'x) SceneEnv_scheme \<Rightarrow> FileLoc \<Rightarrow> 't GeneralScene \<Rightarrow> Fatal + 't GeneralScene" where
  "WorldBegin E loc s =
     VERIFY_OPTIONS ''WorldBegin'' loc s
       (let ctm = fold (\<lambda>i ts. ts_set ts i (T_identity E)) [0..<MaxTransforms] (curTransform s)
        in Inr (s\<lparr>currentApiState := WorldBlock,
                  curTransform := ctm,
                  activeTransformBits := AllTransformsBits,
                  namedCoordinateSystems := (namedCoordinateSystems s)(''world'' \<mapsto> ctm)\<rparr>))"

subsection \<open>Scopes\<close>

definition AttributeBegin :: "FileLoc \<Rightarrow> 't GeneralScene \<Rightarrow> Fatal + 't GeneralScene" where
  "AttributeBegin loc s =
     VERIFY_WORLD ''AttributeBegin'' loc s
       (Inr (s\<lparr>pushedGraphicsStates := pushedGraphicsStates s @ [graphicsState s],
               pushedTransforms := pushedTransforms s @ [curTransform s],
               pushedActiveTransformBits := pushedActiveTransformBits s @ [activeTransformBits s],
               pushStack := pushStack s @ [(CHR ''a'', loc)]\<rparr>))"

text \<open>The restore that \<^verbatim>\<open>AttributeEnd\<close> and \<^verbatim>\<open>ObjectEnd\<close> share, after their own
  first checks: graphics state, transform and bits are read from the backs of their
  vectors and popped, then the marker is examined; \<open>own\<close> is the closing directive's
  marker and \<open>other\<close> the mismatch reported second.\<close>

definition restore_scope ::
    "char \<Rightarrow> char \<Rightarrow> string \<Rightarrow> string \<Rightarrow> 't GeneralScene \<Rightarrow> Fatal + 't GeneralScene" where
  "restore_scope own other msg_t msg_other s =
     (if pushedGraphicsStates s = [] then Inl (Undefined_back ''pushedGraphicsStates'')
      else if pushedTransforms s = [] then Inl (Undefined_back ''pushedTransforms'')
      else if pushedActiveTransformBits s = [] then Inl (Undefined_back ''pushedActiveTransformBits'')
      else if pushStack s = [] then Inl (Undefined_back ''pushStack'')
      else if fst (last (pushStack s)) = CHR ''t'' then Inl (ErrorExit msg_t [])
      else if fst (last (pushStack s)) = other then Inl (ErrorExit msg_other [])
      else if fst (last (pushStack s)) \<noteq> own then Inl (CHECK_failed ''pushStack.back().first'')
      else Inr (s\<lparr>graphicsState := last (pushedGraphicsStates s),
                  pushedGraphicsStates := butlast (pushedGraphicsStates s),
                  curTransform := last (pushedTransforms s),
                  pushedTransforms := butlast (pushedTransforms s),
                  activeTransformBits := last (pushedActiveTransformBits s),
                  pushedActiveTransformBits := butlast (pushedActiveTransformBits s),
                  pushStack := butlast (pushStack s)\<rparr>))"

definition AttributeEnd :: "FileLoc \<Rightarrow> 't GeneralScene \<Rightarrow> Fatal + 't GeneralScene" where
  "AttributeEnd loc s =
     VERIFY_WORLD ''AttributeEnd'' loc s
       (if pushedGraphicsStates s = []
        then Inr (log_Error loc ''Unmatched AttributeEnd encountered. Ignoring it.'' [] s)
        else restore_scope (CHR ''a'') (CHR ''o'')
               ''Mismatched nesting: open TransformBegin from %s at AttributeEnd''
               ''Mismatched nesting: open ObjectBegin from %s at AttributeEnd'' s)"

definition Attribute ::
    "string \<Rightarrow> ParsedParameterVector \<Rightarrow> FileLoc \<Rightarrow> 't GeneralScene \<Rightarrow> Fatal + 't GeneralScene" where
  "Attribute target attrib loc s =
     VERIFY_INITIALIZED ''Attribute'' loc s
       (let gs = graphicsState s;
            ps = map (\<lambda>p. p\<lparr>mayBeUnused := True, pp_colorSpace := Some (colorSpace gs)\<rparr>) attrib
        in if target = ''shape''
           then Inr (s\<lparr>graphicsState := gs\<lparr>shapeAttributes := shapeAttributes gs @ ps\<rparr>\<rparr>)
           else if target = ''light''
           then Inr (s\<lparr>graphicsState := gs\<lparr>lightAttributes := lightAttributes gs @ ps\<rparr>\<rparr>)
           else if target = ''material''
           then Inr (s\<lparr>graphicsState := gs\<lparr>materialAttributes := materialAttributes gs @ ps\<rparr>\<rparr>)
           else if target = ''medium''
           then Inr (s\<lparr>graphicsState := gs\<lparr>mediumAttributes := mediumAttributes gs @ ps\<rparr>\<rparr>)
           else if target = ''texture''
           then Inr (s\<lparr>graphicsState := gs\<lparr>textureAttributes := textureAttributes gs @ ps\<rparr>\<rparr>)
           else Inl (ErrorExit ''Unknown attribute target %s. Must be shape, light, material, medium, or texture.''
                       [target]))"

definition TransformBegin :: "FileLoc \<Rightarrow> 't GeneralScene \<Rightarrow> Fatal + 't GeneralScene" where
  "TransformBegin loc s =
     VERIFY_WORLD ''TransformBegin'' loc s
       (Inr (s\<lparr>pushedTransforms := pushedTransforms s @ [curTransform s],
               pushedActiveTransformBits := pushedActiveTransformBits s @ [activeTransformBits s],
               pushStack := pushStack s @ [(CHR ''t'', loc)]\<rparr>))"

definition TransformEnd :: "FileLoc \<Rightarrow> 't GeneralScene \<Rightarrow> Fatal + 't GeneralScene" where
  "TransformEnd loc s =
     VERIFY_WORLD ''TransformEnd'' loc s
       (if pushedTransforms s = []
        then Inr (log_Error loc ''Unmatched TransformEnd encountered. Ignoring it.'' [] s)
        else if pushedActiveTransformBits s = [] then Inl (Undefined_back ''pushedActiveTransformBits'')
        else if pushStack s = [] then Inl (Undefined_back ''pushStack'')
        else if fst (last (pushStack s)) = CHR ''a''
        then Inl (ErrorExit ''Mismatched nesting: open AttributeBegin from %s at TransformEnd'' [])
        else if fst (last (pushStack s)) = CHR ''o''
        then Inl (ErrorExit ''Mismatched nesting: open ObjectBegin from %s at TransformEnd'' [])
        else if fst (last (pushStack s)) \<noteq> CHR ''t'' then Inl (CHECK_failed ''pushStack.back().first'')
        else Inr (s\<lparr>curTransform := last (pushedTransforms s),
                    pushedTransforms := butlast (pushedTransforms s),
                    activeTransformBits := last (pushedActiveTransformBits s),
                    pushedActiveTransformBits := butlast (pushedActiveTransformBits s),
                    pushStack := butlast (pushStack s)\<rparr>))"

subsection \<open>Entities\<close>

definition Texture ::
    "('t, 'x) SceneEnv_scheme \<Rightarrow> string \<Rightarrow> string \<Rightarrow> string \<Rightarrow> ParsedParameterVector \<Rightarrow> FileLoc
       \<Rightarrow> 't GeneralScene \<Rightarrow> Fatal + 't GeneralScene" where
  "Texture E name type texname params loc s =
     VERIFY_WORLD ''Texture'' loc s
       (let dict = ParameterDictionary params (textureAttributes (graphicsState s))
                     (Some (colorSpace (graphicsState s)));
            fr = freeze_CTM E s;
            e = (name, TransformedSceneEntity texname dict loc (fst fr))
        in if type \<noteq> ''float'' \<and> type \<noteq> ''spectrum''
           then Inl (ErrorExit ''%s: texture type unknown. Must be float or spectrum.'' [type])
           else if name \<in> fst ` set (if type = ''float'' then floatTextures s else spectrumTextures s)
           then Inl (ErrorExit ''Redefining texture %s.'' [name])
           else if type = ''float''
           then Inr (s\<lparr>transformCache := snd fr, floatTextures := floatTextures s @ [e]\<rparr>)
           else Inr (s\<lparr>transformCache := snd fr, spectrumTextures := spectrumTextures s @ [e]\<rparr>))"

definition Material ::
    "string \<Rightarrow> ParsedParameterVector \<Rightarrow> FileLoc \<Rightarrow> 't GeneralScene \<Rightarrow> Fatal + 't GeneralScene" where
  "Material name params loc s =
     VERIFY_WORLD ''Material'' loc s
       (let dict = ParameterDictionary params (materialAttributes (graphicsState s))
                     (Some (colorSpace (graphicsState s)));
            ms = materials s @ [GeneralSceneEntity name dict loc]
        in Inr (s\<lparr>materials := ms,
                  graphicsState := (graphicsState s)\<lparr>currentMaterialIndex := int (length ms) - 1,
                                                     currentMaterialName := []\<rparr>\<rparr>))"

definition MakeNamedMaterial ::
    "string \<Rightarrow> ParsedParameterVector \<Rightarrow> FileLoc \<Rightarrow> 't GeneralScene \<Rightarrow> Fatal + 't GeneralScene" where
  "MakeNamedMaterial name params loc s =
     VERIFY_WORLD ''MakeNamedMaterial'' loc s
       (let dict = ParameterDictionary params (materialAttributes (graphicsState s))
                     (Some (colorSpace (graphicsState s)))
        in if namedMaterials s name \<noteq> None
           then Inl (ErrorExit ''%s: named material redefined.'' [name])
           else Inr (s\<lparr>namedMaterials := (namedMaterials s)(name \<mapsto> GeneralSceneEntity [] dict loc)\<rparr>))"

definition NamedMaterial :: "string \<Rightarrow> FileLoc \<Rightarrow> 't GeneralScene \<Rightarrow> Fatal + 't GeneralScene" where
  "NamedMaterial name loc s =
     VERIFY_WORLD ''NamedMaterial'' loc s
       (Inr (s\<lparr>graphicsState := (graphicsState s)\<lparr>currentMaterialName := name,
                                                   currentMaterialIndex := - 1\<rparr>\<rparr>))"

definition LightSource ::
    "('t, 'x) SceneEnv_scheme \<Rightarrow> string \<Rightarrow> ParsedParameterVector \<Rightarrow> FileLoc \<Rightarrow> 't GeneralScene \<Rightarrow> Fatal + 't GeneralScene" where
  "LightSource E name params loc s =
     VERIFY_WORLD ''LightSource'' loc s
       (let dict = ParameterDictionary params (lightAttributes (graphicsState s))
                     (Some (colorSpace (graphicsState s)));
            fr = freeze_CTM E s
        in Inr (s\<lparr>transformCache := snd fr,
                  lights := lights s @ [LightSceneEntity name dict loc (fst fr)
                                          (currentOutsideMedium (graphicsState s))]\<rparr>))"

definition AreaLightSource ::
    "string \<Rightarrow> ParsedParameterVector \<Rightarrow> FileLoc \<Rightarrow> 't GeneralScene \<Rightarrow> Fatal + 't GeneralScene" where
  "AreaLightSource name params loc s =
     VERIFY_WORLD ''AreaLightSource'' loc s
       (Inr (s\<lparr>graphicsState := (graphicsState s)
               \<lparr>areaLightName := name,
                areaLightParams := ParameterDictionary params (lightAttributes (graphicsState s))
                                     (Some (colorSpace (graphicsState s))),
                areaLightLoc := loc\<rparr>\<rparr>))"

text \<open>The entry of \<^verbatim>\<open>instanceDefinitions\<close> that \<^verbatim>\<open>currentInstance\<close> points at.\<close>

definition instance_entry ::
    "'t GeneralScene \<Rightarrow> string \<Rightarrow> ShapeSceneEntity list \<times> AnimatedShapeSceneEntity list" where
  "instance_entry s n = (case instanceDefinitions s n of Some p \<Rightarrow> p | None \<Rightarrow> ([], []))"

text \<open>\<^verbatim>\<open>*worldFromObject\<close>: the transform stored at an address of the cache. \<^verbatim>\<open>Lookup\<close>
  returns stored addresses only; \<open>d\<close> stands for the value where the address is not one.\<close>

definition deref :: "'t TransformCache \<Rightarrow> nat \<Rightarrow> 't \<Rightarrow> 't" where
  "deref c p d = (case map_of (hashTable c) p of Some v \<Rightarrow> v | None \<Rightarrow> d)"

text \<open>
  \<^verbatim>\<open>Shape\<close>. With a pending area-light name an entity is appended to the area lights and
  its index is kept for the shape. The source then repeats, in the animated and in the
  static branch, the warning issued when an instance definition is open and the name is
  pending; the model issues it once, before the branch, which nothing in the test of the
  branch can see.
\<close>

definition Shape ::
    "('t, 'x) SceneEnv_scheme \<Rightarrow> string \<Rightarrow> ParsedParameterVector \<Rightarrow> FileLoc \<Rightarrow> 't GeneralScene \<Rightarrow> Fatal + 't GeneralScene" where
  "Shape E name params loc s =
     VERIFY_WORLD ''Shape'' loc s
       (let gs = graphicsState s;
            dict = ParameterDictionary params (shapeAttributes gs) (Some (colorSpace gs));
            s1 = (if areaLightName gs \<noteq> []
                  then s\<lparr>areaLights := areaLights s @
                           [GeneralSceneEntity (areaLightName gs) (areaLightParams gs) (areaLightLoc gs)]\<rparr>
                  else s);
            areaLightIndex = (if areaLightName gs \<noteq> [] then int (length (areaLights s1)) - 1 else - 1);
            s2 = (if currentInstance s1 \<noteq> None \<and> areaLightName gs \<noteq> []
                  then log_Warning loc ''Area lights not supported with object instancing'' [] s1
                  else s1)
        in if CTMIsAnimated E s2 then
             (let fr = freeze_CTM E s2;
                  ri = Lookup E (snd fr) (T_identity E);
                  e = \<lparr>ashape_name = name, ashape_parameters = dict, ashape_loc = loc,
                       ashape_worldFromObject = fst fr, ashape_identity = fst ri,
                       ashape_reverseOrientation = reverseOrientation gs,
                       ashape_materialIndex = currentMaterialIndex gs,
                       ashape_materialName = currentMaterialName gs,
                       ashape_lightIndex = areaLightIndex,
                       ashape_insideMedium = currentInsideMedium gs,
                       ashape_outsideMedium = currentOutsideMedium gs\<rparr>
              in case currentInstance s2 of
                   None \<Rightarrow> Inr (s2\<lparr>transformCache := snd ri, animatedShapes := animatedShapes s2 @ [e]\<rparr>)
                 | Some n \<Rightarrow>
                     Inr (s2\<lparr>transformCache := snd ri,
                            instanceDefinitions := (instanceDefinitions s2)
                              (n \<mapsto> (fst (instance_entry s2 n), snd (instance_entry s2 n) @ [e]))\<rparr>))
           else
             (let r0 = Lookup E (transformCache s2) (GetCTM s2 0);
                  r1 = Lookup E (snd r0) (T_Inverse E (deref (snd r0) (fst r0) (GetCTM s2 0)));
                  e = \<lparr>shape_name = name, shape_parameters = dict, shape_loc = loc,
                       worldFromObject = fst r0, objectFromWorld = fst r1,
                       shape_reverseOrientation = reverseOrientation gs,
                       materialIndex = currentMaterialIndex gs,
                       materialName = currentMaterialName gs,
                       lightIndex = areaLightIndex,
                       insideMedium = currentInsideMedium gs,
                       outsideMedium = currentOutsideMedium gs\<rparr>
              in case currentInstance s2 of
                   None \<Rightarrow> Inr (s2\<lparr>transformCache := snd r1, shapes := shapes s2 @ [e]\<rparr>)
                 | Some n \<Rightarrow>
                     Inr (s2\<lparr>transformCache := snd r1,
                            instanceDefinitions := (instanceDefinitions s2)
                              (n \<mapsto> (fst (instance_entry s2 n) @ [e], snd (instance_entry s2 n)))\<rparr>)))"

definition ReverseOrientation :: "FileLoc \<Rightarrow> 't GeneralScene \<Rightarrow> Fatal + 't GeneralScene" where
  "ReverseOrientation loc s =
     VERIFY_WORLD ''ReverseOrientation'' loc s
       (Inr (s\<lparr>graphicsState := (graphicsState s)
               \<lparr>reverseOrientation := \<not> reverseOrientation (graphicsState s)\<rparr>\<rparr>))"

subsection \<open>Object instancing\<close>

text \<open>\<^verbatim>\<open>ObjectBegin\<close> pushes as \<^verbatim>\<open>AttributeBegin\<close> does, calls \<^verbatim>\<open>Attribute\<close> with the
  parameter vector it has just declared (to which nothing was added), and only then
  checks for an open definition and for the name.\<close>

definition ObjectBegin :: "string \<Rightarrow> FileLoc \<Rightarrow> 't GeneralScene \<Rightarrow> Fatal + 't GeneralScene" where
  "ObjectBegin name loc s =
     VERIFY_WORLD ''ObjectBegin'' loc s
       (case Attribute ''shape'' [] loc
               (s\<lparr>pushedGraphicsStates := pushedGraphicsStates s @ [graphicsState s],
                  pushedTransforms := pushedTransforms s @ [curTransform s],
                  pushedActiveTransformBits := pushedActiveTransformBits s @ [activeTransformBits s],
                  pushStack := pushStack s @ [(CHR ''o'', loc)]\<rparr>) of
          Inl f \<Rightarrow> Inl f
        | Inr s1 \<Rightarrow>
            if currentInstance s1 \<noteq> None
            then Inl (ErrorExit ''ObjectBegin called inside of instance definition'' [])
            else if instanceDefinitions s1 name \<noteq> None
            then Inl (ErrorExit ''%s: trying to redefine an object instance'' [name])
            else Inr (s1\<lparr>instanceDefinitions := (instanceDefinitions s1)(name \<mapsto> ([], [])),
                         currentInstance := Some name\<rparr>))"

definition ObjectEnd :: "FileLoc \<Rightarrow> 't GeneralScene \<Rightarrow> Fatal + 't GeneralScene" where
  "ObjectEnd loc s =
     VERIFY_WORLD ''ObjectEnd'' loc s
       (if currentInstance s = None
        then Inl (ErrorExit ''ObjectEnd called outside of instance definition'' [])
        else restore_scope (CHR ''o'') (CHR ''a'')
               ''Mismatched nesting: open TransformBegin from %s at ObjectEnd''
               ''Mismatched nesting: open AttributeBegin from %s at ObjectEnd''
               (s\<lparr>currentInstance := None\<rparr>))"

definition ObjectInstance ::
    "('t, 'x) SceneEnv_scheme \<Rightarrow> string \<Rightarrow> FileLoc \<Rightarrow> 't GeneralScene \<Rightarrow> Fatal + 't GeneralScene" where
  "ObjectInstance E name loc s =
     VERIFY_WORLD ''ObjectInstance'' loc s
       (if currentInstance s \<noteq> None
        then Inl (ErrorExit ''ObjectInstance can not be called inside instance definition'' [])
        else
          (let worldFromCameraT = Inverse_set E (cameraFromWorldT s)
           in if CTMIsAnimated E s then
                (let r0 = Lookup E (transformCache s) (T_mul E (GetCTM s 0) (ts_get worldFromCameraT 0));
                     r1 = Lookup E (snd r0) (T_mul E (GetCTM s 1) (ts_get worldFromCameraT 1));
                     atr = AnimatedTransform (fst r0) (transformStartTime s) (fst r1) (transformEndTime s)
                 in Inr (s\<lparr>transformCache := snd r1,
                           instances := instances s @ [InstanceSceneEntity name loc atr None]\<rparr>))
              else
                (let r0 = Lookup E (transformCache s) (T_mul E (GetCTM s 0) (ts_get worldFromCameraT 0))
                 in Inr (s\<lparr>transformCache := snd r0,
                           instances := instances s @
                             [InstanceSceneEntity name loc AnimatedTransform_default (Some (fst r0))]\<rparr>))))"

subsection \<open>The end of the world block\<close>

text \<open>
  \<^verbatim>\<open>WorldEnd\<close> has two loops. The first runs while a graphics state is pushed: it
  warns, pops the graphics state and pops a transform. The second runs while a transform
  is pushed: it warns and pops it. Neither touches the pushed bit masks or the nesting
  markers. Each loop is a recursive function of the scene, with the length of the vector
  it empties as its measure.
\<close>

function WorldEnd_attributes :: "FileLoc \<Rightarrow> 't GeneralScene \<Rightarrow> Fatal + 't GeneralScene" where
  "WorldEnd_attributes loc s =
     (if pushedGraphicsStates s = [] then Inr s
      else if pushedTransforms s = [] then Inl (Undefined_back ''pushedTransforms'')
      else WorldEnd_attributes loc
             ((log_Warning loc ''Missing end to AttributeBegin'' [] s)
                \<lparr>pushedGraphicsStates := butlast (pushedGraphicsStates s),
                 pushedTransforms := butlast (pushedTransforms s)\<rparr>))"
  by pat_completeness auto
termination
  by (relation "measure (\<lambda>(loc, s). length (pushedGraphicsStates s))") (auto simp: log_Warning_def)

function WorldEnd_transforms :: "FileLoc \<Rightarrow> 't GeneralScene \<Rightarrow> 't GeneralScene" where
  "WorldEnd_transforms loc s =
     (if pushedTransforms s = [] then s
      else WorldEnd_transforms loc
             ((log_Warning loc ''Missing end to TransformBegin'' [] s)
                \<lparr>pushedTransforms := butlast (pushedTransforms s)\<rparr>))"
  by pat_completeness auto
termination
  by (relation "measure (\<lambda>(loc, s). length (pushedTransforms s))") (auto simp: log_Warning_def)

definition WorldEnd :: "('t, 'x) SceneEnv_scheme \<Rightarrow> FileLoc \<Rightarrow> 't GeneralScene \<Rightarrow> Fatal + 't GeneralScene" where
  "WorldEnd E loc s =
     VERIFY_WORLD ''WorldEnd'' loc s
       (case WorldEnd_attributes loc s of
          Inl f \<Rightarrow> Inl f
        | Inr s1 \<Rightarrow>
            (let s2 = WorldEnd_transforms loc s1
             in case hand_off E s2 of Some f \<Rightarrow> Inl f | None \<Rightarrow> Inr s2))"

subsection \<open>The directive stream\<close>

text \<open>
  One constructor per directive of the interface, with the arguments of the call. One
  member is left out: \<^verbatim>\<open>Option\<close> reads and writes the process-wide options only.
\<close>

datatype Directive =
  Dir_Identity FileLoc
| Dir_Translate Float Float Float FileLoc
| Dir_Transform "Float list" FileLoc
| Dir_ConcatTransform "Float list" FileLoc
| Dir_Rotate Float Float Float Float FileLoc
| Dir_Scale Float Float Float FileLoc
| Dir_LookAt "Float \<times> Float \<times> Float" "Float \<times> Float \<times> Float" "Float \<times> Float \<times> Float" FileLoc
| Dir_CoordinateSystem string FileLoc
| Dir_CoordSysTransform string FileLoc
| Dir_ActiveTransformAll FileLoc
| Dir_ActiveTransformEndTime FileLoc
| Dir_ActiveTransformStartTime FileLoc
| Dir_TransformTimes Float Float FileLoc
| Dir_ColorSpace string FileLoc
| Dir_PixelFilter string ParsedParameterVector FileLoc
| Dir_Film string ParsedParameterVector FileLoc
| Dir_Sampler string ParsedParameterVector FileLoc
| Dir_Accelerator string ParsedParameterVector FileLoc
| Dir_Integrator string ParsedParameterVector FileLoc
| Dir_Camera string ParsedParameterVector FileLoc
| Dir_MakeNamedMedium string ParsedParameterVector FileLoc
| Dir_MediumInterface string string FileLoc
| Dir_WorldBegin FileLoc
| Dir_AttributeBegin FileLoc
| Dir_AttributeEnd FileLoc
| Dir_Attribute string ParsedParameterVector FileLoc
| Dir_TransformBegin FileLoc
| Dir_TransformEnd FileLoc
| Dir_Texture string string string ParsedParameterVector FileLoc
| Dir_Material string ParsedParameterVector FileLoc
| Dir_MakeNamedMaterial string ParsedParameterVector FileLoc
| Dir_NamedMaterial string FileLoc
| Dir_LightSource string ParsedParameterVector FileLoc
| Dir_AreaLightSource string ParsedParameterVector FileLoc
| Dir_Shape string ParsedParameterVector FileLoc
| Dir_ReverseOrientation FileLoc
| Dir_ObjectBegin string FileLoc
| Dir_ObjectEnd FileLoc
| Dir_ObjectInstance string FileLoc
| Dir_WorldEnd FileLoc

fun step :: "('t, 'x) SceneEnv_scheme \<Rightarrow> Directive \<Rightarrow> 't GeneralScene \<Rightarrow> Fatal + 't GeneralScene" where
  "step E (Dir_Identity loc) s = Identity E loc s"
| "step E (Dir_Translate dx dy dz loc) s = Translate E dx dy dz loc s"
| "step E (Dir_Transform tr loc) s = Transform E tr loc s"
| "step E (Dir_ConcatTransform tr loc) s = ConcatTransform E tr loc s"
| "step E (Dir_Rotate angle dx dy dz loc) s = Rotate E angle dx dy dz loc s"
| "step E (Dir_Scale sx sy sz loc) s = Scale E sx sy sz loc s"
| "step E (Dir_LookAt eye look up loc) s = LookAt E eye look up loc s"
| "step E (Dir_CoordinateSystem name loc) s = CoordinateSystem name loc s"
| "step E (Dir_CoordSysTransform name loc) s = CoordSysTransform name loc s"
| "step E (Dir_ActiveTransformAll loc) s = ActiveTransformAll loc s"
| "step E (Dir_ActiveTransformEndTime loc) s = ActiveTransformEndTime loc s"
| "step E (Dir_ActiveTransformStartTime loc) s = ActiveTransformStartTime loc s"
| "step E (Dir_TransformTimes start end' loc) s = TransformTimes start end' loc s"
| "step E (Dir_ColorSpace n loc) s = ColorSpace E n loc s"
| "step E (Dir_PixelFilter name params loc) s = PixelFilter name params loc s"
| "step E (Dir_Film type params loc) s = Film type params loc s"
| "step E (Dir_Sampler name params loc) s = Sampler name params loc s"
| "step E (Dir_Accelerator name params loc) s = Accelerator name params loc s"
| "step E (Dir_Integrator name params loc) s = Integrator name params loc s"
| "step E (Dir_Camera name params loc) s = Camera E name params loc s"
| "step E (Dir_MakeNamedMedium name params loc) s = MakeNamedMedium E name params loc s"
| "step E (Dir_MediumInterface insideName outsideName loc) s = MediumInterface insideName outsideName loc s"
| "step E (Dir_WorldBegin loc) s = WorldBegin E loc s"
| "step E (Dir_AttributeBegin loc) s = AttributeBegin loc s"
| "step E (Dir_AttributeEnd loc) s = AttributeEnd loc s"
| "step E (Dir_Attribute target attrib loc) s = Attribute target attrib loc s"
| "step E (Dir_TransformBegin loc) s = TransformBegin loc s"
| "step E (Dir_TransformEnd loc) s = TransformEnd loc s"
| "step E (Dir_Texture name type texname params loc) s = Texture E name type texname params loc s"
| "step E (Dir_Material name params loc) s = Material name params loc s"
| "step E (Dir_MakeNamedMaterial name params loc) s = MakeNamedMaterial name params loc s"
| "step E (Dir_NamedMaterial name loc) s = NamedMaterial name loc s"
| "step E (Dir_LightSource name params loc) s = LightSource E name params loc s"
| "step E (Dir_AreaLightSource name params loc) s = AreaLightSource name params loc s"
| "step E (Dir_Shape name params loc) s = Shape E name params loc s"
| "step E (Dir_ReverseOrientation loc) s = ReverseOrientation loc s"
| "step E (Dir_ObjectBegin name loc) s = ObjectBegin name loc s"
| "step E (Dir_ObjectEnd loc) s = ObjectEnd loc s"
| "step E (Dir_ObjectInstance name loc) s = ObjectInstance E name loc s"
| "step E (Dir_WorldEnd loc) s = WorldEnd E loc s"

text \<open>The directives are applied in call order; a fatal error ends the run.\<close>

fun run :: "('t, 'x) SceneEnv_scheme \<Rightarrow> Directive list \<Rightarrow> 't GeneralScene \<Rightarrow> Fatal + 't GeneralScene" where
  "run E [] s = Inr s"
| "run E (d # ds) s = (case step E d s of Inl f \<Rightarrow> Inl f | Inr s' \<Rightarrow> run E ds s')"

subsection \<open>A symbolic transform library\<close>

text \<open>For evaluation at concrete inputs the parameters are instantiated by terms: every
  operation of the transform library builds the term that names it, two transforms are
  equal when their terms are, only the colour space \<open>srgb\<close> is known, and the hand-off
  at the end of the world block returns.\<close>

datatype Sym =
  S_identity
| S_mul Sym Sym
| S_Inverse Sym
| S_Transpose Sym
| S_Matrix "Float list"
| S_Translate Float Float Float
| S_Rotate Float Float Float Float
| S_Scale Float Float Float
| S_LookAt "Float \<times> Float \<times> Float" "Float \<times> Float \<times> Float" "Float \<times> Float \<times> Float"

definition symE :: "Sym SceneEnv" where
  "symE =
     \<lparr>Hash = size, T_eq = (=), rehash = (\<lambda>sz bc. if bc < sz then 2 * sz + 1 else bc),
      T_identity = S_identity, T_mul = S_mul, T_Inverse = S_Inverse, T_Transpose = S_Transpose,
      T_fromMatrix = S_Matrix,
      T_Translate = (\<lambda>(dx, dy, dz). S_Translate dx dy dz),
      T_Rotate = (\<lambda>angle (dx, dy, dz). S_Rotate angle dx dy dz),
      T_Scale = S_Scale, T_LookAt = S_LookAt,
      T_apply = (\<lambda>t p. p),
      GetNamed = (\<lambda>n. if n = ''srgb'' then Some sRGB else None),
      initial_buckets = 1, first_address = 0,
      hand_off = (\<lambda>s. None)\<rparr>"

definition loc0 :: FileLoc where
  "loc0 = FileLoc ''scene.pbrt'' 1 0"

subsection \<open>Observations and predicates used in the statements\<close>

text \<open>A property of the scene a directive returns, when it returns one.\<close>

definition holds_after :: "Fatal + 's \<Rightarrow> ('s \<Rightarrow> bool) \<Rightarrow> bool" where
  "holds_after r P = (case r of Inl f \<Rightarrow> True | Inr s' \<Rightarrow> P s')"

text \<open>The lengths of the three stacks of pushed graphics states, pushed transforms and
  pushed active-transform bits.\<close>

definition stack_lengths :: "'t GeneralScene \<Rightarrow> nat \<times> nat \<times> nat" where
  "stack_lengths s =
     (length (pushedGraphicsStates s), length (pushedTransforms s), length (pushedActiveTransformBits s))"

text \<open>The relation between the stacks that the directives keep: transforms, bits and
  markers are pushed and popped together, and a graphics state is pushed with every
  marker that is not the one of \<^verbatim>\<open>TransformBegin\<close>.\<close>

definition scope_inv :: "'t GeneralScene \<Rightarrow> bool" where
  "scope_inv s \<longleftrightarrow>
     length (pushedTransforms s) = length (pushStack s)
   \<and> length (pushedActiveTransformBits s) = length (pushStack s)
   \<and> length (pushedGraphicsStates s) = length (filter (\<lambda>m. fst m \<noteq> CHR ''t'') (pushStack s))"

text \<open>
  \<^verbatim>\<open>WorldEnd\<close> empties the pushed graphics states and the pushed transforms and leaves
  the pushed bits and the markers. The relation that every directive keeps, \<^verbatim>\<open>WorldEnd\<close>
  included: the bits go with the markers, and the transforms and the graphics states go
  with the markers pushed last, as many of them as there are pushed transforms.
\<close>

fun is_WorldEnd :: "Directive \<Rightarrow> bool" where
  "is_WorldEnd (Dir_WorldEnd loc) = True"
| "is_WorldEnd d = False"

definition stack_inv :: "'t GeneralScene \<Rightarrow> bool" where
  "stack_inv s \<longleftrightarrow>
     length (pushedTransforms s) \<le> length (pushStack s)
   \<and> length (pushedActiveTransformBits s) = length (pushStack s)
   \<and> length (pushedGraphicsStates s)
       = length (filter (\<lambda>m. fst m \<noteq> CHR ''t'')
                  (drop (length (pushStack s) - length (pushedTransforms s)) (pushStack s)))"

text \<open>A sequence of scope calls whose last \<^verbatim>\<open>AttributeEnd\<close> has no match.\<close>

definition scopes5 :: "Directive list" where
  "scopes5 = [Dir_AttributeBegin loc0, Dir_TransformBegin loc0, Dir_TransformEnd loc0,
              Dir_AttributeEnd loc0, Dir_AttributeEnd loc0]"

text \<open>The test of \<^verbatim>\<open>FOR_ACTIVE_TRANSFORMS\<close> for one index, and the slot of the current
  transform at an index.\<close>

definition selected :: "32 word \<Rightarrow> nat \<Rightarrow> bool" where
  "selected bits i \<longleftrightarrow> bits AND push_bit i 1 \<noteq> 0"

definition slot :: "nat \<Rightarrow> 't GeneralScene \<Rightarrow> 't" where
  "slot i s = ts_get (curTransform s) i"

text \<open>The entry of the coordinate-system registry for a name, with the reports made
  so far.\<close>

definition coordsys_and_log :: "string \<Rightarrow> 't GeneralScene \<Rightarrow> 't TransformSet option \<times> Diagnostic list" where
  "coordsys_and_log name s = (namedCoordinateSystems s name, diagnostics s)"

text \<open>The directives whose body starts with \<^verbatim>\<open>VERIFY_WORLD\<close>, with the name and the
  location the macro is given; and those that start with \<^verbatim>\<open>VERIFY_INITIALIZED\<close> alone.\<close>

fun world_gate :: "Directive \<Rightarrow> (string \<times> FileLoc) option" where
  "world_gate (Dir_AttributeBegin loc) = Some (''AttributeBegin'', loc)"
| "world_gate (Dir_AttributeEnd loc) = Some (''AttributeEnd'', loc)"
| "world_gate (Dir_TransformBegin loc) = Some (''TransformBegin'', loc)"
| "world_gate (Dir_TransformEnd loc) = Some (''TransformEnd'', loc)"
| "world_gate (Dir_Texture name type texname params loc) = Some (''Texture'', loc)"
| "world_gate (Dir_Material name params loc) = Some (''Material'', loc)"
| "world_gate (Dir_MakeNamedMaterial name params loc) = Some (''MakeNamedMaterial'', loc)"
| "world_gate (Dir_NamedMaterial name loc) = Some (''NamedMaterial'', loc)"
| "world_gate (Dir_LightSource name params loc) = Some (''LightSource'', loc)"
| "world_gate (Dir_AreaLightSource name params loc) = Some (''AreaLightSource'', loc)"
| "world_gate (Dir_Shape name params loc) = Some (''Shape'', loc)"
| "world_gate (Dir_ReverseOrientation loc) = Some (''ReverseOrientation'', loc)"
| "world_gate (Dir_ObjectBegin name loc) = Some (''ObjectBegin'', loc)"
| "world_gate (Dir_ObjectEnd loc) = Some (''ObjectEnd'', loc)"
| "world_gate (Dir_ObjectInstance name loc) = Some (''ObjectInstance'', loc)"
| "world_gate (Dir_WorldEnd loc) = Some (''WorldEnd'', loc)"
| "world_gate d = None"

fun initialized_gate :: "Directive \<Rightarrow> bool" where
  "initialized_gate (Dir_Identity loc) = True"
| "initialized_gate (Dir_Translate dx dy dz loc) = True"
| "initialized_gate (Dir_Transform tr loc) = True"
| "initialized_gate (Dir_ConcatTransform tr loc) = True"
| "initialized_gate (Dir_Rotate angle dx dy dz loc) = True"
| "initialized_gate (Dir_Scale sx sy sz loc) = True"
| "initialized_gate (Dir_LookAt eye look up loc) = True"
| "initialized_gate (Dir_CoordinateSystem name loc) = True"
| "initialized_gate (Dir_CoordSysTransform name loc) = True"
| "initialized_gate (Dir_ColorSpace n loc) = True"
| "initialized_gate (Dir_MakeNamedMedium name params loc) = True"
| "initialized_gate (Dir_MediumInterface insideName outsideName loc) = True"
| "initialized_gate (Dir_Attribute target attrib loc) = True"
| "initialized_gate d = False"

text \<open>The API state, the bit mask and the reports.\<close>

definition gate_and_bits :: "'t GeneralScene \<Rightarrow> APIState \<times> 32 word \<times> Diagnostic list" where
  "gate_and_bits s = (currentApiState s, activeTransformBits s, diagnostics s)"

text \<open>The names that the \<^verbatim>\<open>NamedMaterial\<close> directives of a sequence were given, in
  order.\<close>

fun NamedMaterial_arg :: "Directive \<Rightarrow> string option" where
  "NamedMaterial_arg (Dir_NamedMaterial name loc) = Some name"
| "NamedMaterial_arg d = None"

definition named_so_far :: "Directive list \<Rightarrow> string list" where
  "named_so_far ds = List.map_filter NamedMaterial_arg ds"

text \<open>The material reference of a graphics state against a material list of length
  \<open>n\<close> and the names given so far: an index into the list with no name, or the sentinel
  with one of those names.\<close>

definition material_ref_ok :: "string list \<Rightarrow> nat \<Rightarrow> GraphicsState \<Rightarrow> bool" where
  "material_ref_ok names n g \<longleftrightarrow>
     (0 \<le> currentMaterialIndex g \<and> currentMaterialIndex g < int n \<and> currentMaterialName g = [])
   \<or> (currentMaterialIndex g = - 1 \<and> currentMaterialName g \<in> set names)"

definition material_inv :: "string list \<Rightarrow> 't GeneralScene \<Rightarrow> bool" where
  "material_inv names s \<longleftrightarrow>
     material_ref_ok names (length (materials s)) (graphicsState s)
   \<and> list_all (material_ref_ok names (length (materials s))) (pushedGraphicsStates s)"

text \<open>The material list with the current material reference.\<close>

definition material_state :: "'t GeneralScene \<Rightarrow> GeneralSceneEntity list \<times> int \<times> string" where
  "material_state s =
     (materials s, currentMaterialIndex (graphicsState s), currentMaterialName (graphicsState s))"

text \<open>The directives that choose a material, and the state in which none has chosen
  one: the graphics state, every pushed graphics state and every shape created so far,
  at the top level or in an instance definition, refer to index 0 with no name.\<close>

fun sets_material :: "Directive \<Rightarrow> bool" where
  "sets_material (Dir_Material name params loc) = True"
| "sets_material (Dir_NamedMaterial name loc) = True"
| "sets_material d = False"

definition default_ref :: "GraphicsState \<Rightarrow> bool" where
  "default_ref g \<longleftrightarrow> currentMaterialIndex g = 0 \<and> currentMaterialName g = []"

definition shapes_default :: "ShapeSceneEntity list \<times> AnimatedShapeSceneEntity list \<Rightarrow> bool" where
  "shapes_default p \<longleftrightarrow>
     list_all (\<lambda>e. materialIndex e = 0 \<and> materialName e = []) (fst p)
   \<and> list_all (\<lambda>e. ashape_materialIndex e = 0 \<and> ashape_materialName e = []) (snd p)"

definition all_default :: "'t GeneralScene \<Rightarrow> bool" where
  "all_default s \<longleftrightarrow>
     default_ref (graphicsState s)
   \<and> list_all default_ref (pushedGraphicsStates s)
   \<and> shapes_default (shapes s, animatedShapes s)
   \<and> (\<forall>n p. instanceDefinitions s n = Some p \<longrightarrow> shapes_default p)"

definition diffuse_first :: "'t GeneralScene \<Rightarrow> bool" where
  "diffuse_first s \<longleftrightarrow>
     materials s \<noteq> []
   \<and> hd (materials s) = GeneralSceneEntity ''diffuse'' (ParameterDictionary [] [] (Some sRGB)) FileLoc_default"

text \<open>The material references of the top-level static shapes, in order.\<close>

definition shape_material_refs :: "'t GeneralScene \<Rightarrow> (int \<times> string) list" where
  "shape_material_refs s = map (\<lambda>e. (materialIndex e, materialName e)) (shapes s)"

text \<open>A directive returns a scene, and the scene has a property.\<close>

definition returns :: "Fatal + 's \<Rightarrow> ('s \<Rightarrow> bool) \<Rightarrow> bool" where
  "returns r P = (case r of Inl f \<Rightarrow> False | Inr s' \<Rightarrow> P s')"

fun is_Shape :: "Directive \<Rightarrow> bool" where
  "is_Shape (Dir_Shape name params loc) = True"
| "is_Shape d = False"

text \<open>The area-light entity that \<^verbatim>\<open>Shape\<close> builds from the pending values of a
  graphics state, and the area-light indices of the shapes in the list that \<^verbatim>\<open>Shape\<close>
  appends to: the static or the animated list, of the open instance definition or of the
  top level.\<close>

definition pending_light :: "GraphicsState \<Rightarrow> GeneralSceneEntity" where
  "pending_light g = GeneralSceneEntity (areaLightName g) (areaLightParams g) (areaLightLoc g)"

definition target_links :: "('t, 'x) SceneEnv_scheme \<Rightarrow> 't GeneralScene \<Rightarrow> int list" where
  "target_links E s =
     (let p = (case currentInstance s of None \<Rightarrow> (shapes s, animatedShapes s) | Some n \<Rightarrow> instance_entry s n)
      in if CTMIsAnimated E s then map ashape_lightIndex (snd p) else map lightIndex (fst p))"

definition lights_and_links ::
    "('t, 'x) SceneEnv_scheme \<Rightarrow> 't GeneralScene \<Rightarrow> GeneralSceneEntity list \<times> int list \<times> string" where
  "lights_and_links E s = (areaLights s, target_links E s, areaLightName (graphicsState s))"

text \<open>The marker a directive pushes, the marker a directive expects on top, and
  well-nestedness of a directive sequence against the kinds of the scopes that are open
  (innermost first): every closing directive meets the opening directive of its own
  kind, nothing is left open at the end, and no \<^verbatim>\<open>WorldEnd\<close>, which closes every open
  scope, comes between.\<close>

fun opens :: "Directive \<Rightarrow> char option" where
  "opens (Dir_AttributeBegin loc) = Some (CHR ''a'')"
| "opens (Dir_TransformBegin loc) = Some (CHR ''t'')"
| "opens (Dir_ObjectBegin name loc) = Some (CHR ''o'')"
| "opens d = None"

fun closes :: "Directive \<Rightarrow> char option" where
  "closes (Dir_AttributeEnd loc) = Some (CHR ''a'')"
| "closes (Dir_TransformEnd loc) = Some (CHR ''t'')"
| "closes (Dir_ObjectEnd loc) = Some (CHR ''o'')"
| "closes d = None"

fun well_nested :: "char list \<Rightarrow> Directive list \<Rightarrow> bool" where
  "well_nested st [] = (st = [])"
| "well_nested st (d # ds) =
     (if is_WorldEnd d then False
      else case opens d of
        Some k \<Rightarrow> well_nested (k # st) ds
      | None \<Rightarrow>
          (case closes d of
             Some k \<Rightarrow> (case st of [] \<Rightarrow> False | k' # st' \<Rightarrow> k = k' \<and> well_nested st' ds)
           | None \<Rightarrow> well_nested st ds))"

text \<open>The body of an attribute block that changes the material, the orientation, the
  pending area light and the shape attributes, with a transform block and an object
  definition inside.\<close>

definition block_body :: "Directive list" where
  "block_body =
     [Dir_Material ''plastic'' [] loc0, Dir_ReverseOrientation loc0,
      Dir_TransformBegin loc0, Dir_Translate 1 0 0 loc0,
      Dir_AreaLightSource ''diffuse'' [] loc0, Dir_Shape ''sphere'' [] loc0, Dir_TransformEnd loc0,
      Dir_ObjectBegin ''o'' loc0, Dir_MediumInterface ''fog'' [] loc0, Dir_Shape ''disk'' [] loc0,
      Dir_ObjectEnd loc0]"



section \<open>Properties of the transform cache\<close>

















section \<open>Common lemmas about the interpreter\<close>

text \<open>The two loops of \<^verbatim>\<open>WorldEnd\<close> in closed form. Their recursive equations are
  taken out of the simplifier's rules, where they would be unfolded without end.\<close>

declare WorldEnd_transforms.simps [simp del] WorldEnd_attributes.simps [simp del]

lemma WorldEnd_transforms_closed:
  "WorldEnd_transforms loc s =
     s\<lparr>pushedTransforms := [],
       diagnostics := diagnostics s @
         replicate (length (pushedTransforms s)) (Warning loc ''Missing end to TransformBegin'' [])\<rparr>"
proof (induction loc s rule: WorldEnd_transforms.induct)
  case (1 loc s)
  show ?case
  proof (cases "pushedTransforms s = []")
    case True
    then show ?thesis by (subst WorldEnd_transforms.simps) simp
  next
    case False
    then obtain n where n: "length (pushedTransforms s) = Suc n"
      by (cases "pushedTransforms s") simp_all
    from False "1.IH" [OF False] show ?thesis
      by (subst WorldEnd_transforms.simps)
         (simp add: log_Warning_def n replicate_append_same)
  qed
qed

lemma WorldEnd_attributes_closed:
  "WorldEnd_attributes loc s =
     (if length (pushedGraphicsStates s) \<le> length (pushedTransforms s)
      then Inr (s\<lparr>pushedGraphicsStates := [],
                  pushedTransforms :=
                    take (length (pushedTransforms s) - length (pushedGraphicsStates s)) (pushedTransforms s),
                  diagnostics := diagnostics s @
                    replicate (length (pushedGraphicsStates s))
                      (Warning loc ''Missing end to AttributeBegin'' [])\<rparr>)
      else Inl (Undefined_back ''pushedTransforms''))"
proof (induction loc s rule: WorldEnd_attributes.induct)
  case (1 loc s)
  show ?case
  proof (cases "pushedGraphicsStates s = []")
    case True
    then show ?thesis by (subst WorldEnd_attributes.simps) simp
  next
    case g: False
    then obtain n where n: "length (pushedGraphicsStates s) = Suc n"
      by (cases "pushedGraphicsStates s") simp_all
    show ?thesis
    proof (cases "pushedTransforms s = []")
      case True
      with g show ?thesis by (subst WorldEnd_attributes.simps) (simp add: n)
    next
      case t: False
      then obtain m where m: "length (pushedTransforms s) = Suc m"
        by (cases "pushedTransforms s") simp_all
      have tk: "take (m - n) (butlast (pushedTransforms s)) = take (Suc m - Suc n) (pushedTransforms s)"
        by (simp add: take_butlast m)
      from g t "1.IH" [OF g t] show ?thesis
        by (subst WorldEnd_attributes.simps)
           (simp add: log_Warning_def n m tk replicate_append_same)
    qed
  qed
qed

lemma WorldEnd_closed:
  "WorldEnd E loc s =
     VERIFY_WORLD ''WorldEnd'' loc s
       (if length (pushedGraphicsStates s) \<le> length (pushedTransforms s)
        then (case hand_off E
                (s\<lparr>pushedGraphicsStates := [], pushedTransforms := [],
                   diagnostics := diagnostics s @
                     replicate (length (pushedGraphicsStates s))
                       (Warning loc ''Missing end to AttributeBegin'' []) @
                     replicate (length (pushedTransforms s) - length (pushedGraphicsStates s))
                       (Warning loc ''Missing end to TransformBegin'' [])\<rparr>) of
                Some f \<Rightarrow> Inl f
              | None \<Rightarrow>
                  Inr (s\<lparr>pushedGraphicsStates := [], pushedTransforms := [],
                         diagnostics := diagnostics s @
                           replicate (length (pushedGraphicsStates s))
                             (Warning loc ''Missing end to AttributeBegin'' []) @
                           replicate (length (pushedTransforms s) - length (pushedGraphicsStates s))
                             (Warning loc ''Missing end to TransformBegin'' [])\<rparr>))
        else Inl (Undefined_back ''pushedTransforms''))"
  by (simp add: WorldEnd_def WorldEnd_attributes_closed WorldEnd_transforms_closed Let_def)

lemmas gate_defs = VERIFY_INITIALIZED_def VERIFY_OPTIONS_def VERIFY_WORLD_def log_Error_def log_Warning_def

lemmas directive_defs =
  Identity_def Translate_def Transform_def ConcatTransform_def Rotate_def Scale_def LookAt_def
  CoordinateSystem_def CoordSysTransform_def ActiveTransformAll_def ActiveTransformEndTime_def
  ActiveTransformStartTime_def TransformTimes_def ColorSpace_def PixelFilter_def Film_def Sampler_def
  Accelerator_def Integrator_def Camera_def MakeNamedMedium_def MediumInterface_def WorldBegin_def
  AttributeBegin_def AttributeEnd_def Attribute_def TransformBegin_def TransformEnd_def Texture_def
  Material_def MakeNamedMaterial_def NamedMaterial_def LightSource_def AreaLightSource_def Shape_def
  ReverseOrientation_def ObjectBegin_def ObjectEnd_def ObjectInstance_def restore_scope_def
  WARN_IF_ANIMATED_TRANSFORM_def WorldEnd_closed

lemma loop_indices: "[0..<MaxTransforms] = [0, Suc 0]"
  by (simp add: MaxTransforms_def numeral_2_eq_2 upt_rec)

lemma FOR_ACTIVE_TRANSFORMS_unfold:
  "FOR_ACTIVE_TRANSFORMS bits expr (TransformSet a b) =
     TransformSet (if bits AND 1 \<noteq> 0 then expr a else a) (if bits AND 2 \<noteq> 0 then expr b else b)"
  by (simp add: FOR_ACTIVE_TRANSFORMS_def loop_indices)

lemma bits_vals: "AllTransformsBits = 3" "StartTransformBits = 1" "EndTransformBits = 2"
  by (simp_all add: AllTransformsBits_def StartTransformBits_def EndTransformBits_def MaxTransforms_def)

lemmas eval_defs = directive_defs gate_defs symE_def GeneralScene_new_def GraphicsState_new_def
  empty_cache_def Let_def bits_vals loop_indices FOR_ACTIVE_TRANSFORMS_unfold loc0_def
  CTMIsAnimated_def GetCTM_def freeze_CTM_def Lookup_def insert_new_def bucket_def deref_def
  instance_entry_def Inverse_set_def camera_translation_def

lemma holds_after_simps [simp]:
  "holds_after (Inl f) P = True"
  "holds_after (Inr s) P = P s"
  by (simp_all add: holds_after_def)

lemma holds_after_if:
  "holds_after (if c then a else b) P = (if c then holds_after a P else holds_after b P)"
  by simp

lemma holds_after_case_option:
  "holds_after (case x of None \<Rightarrow> a | Some y \<Rightarrow> b y) P
     = (case x of None \<Rightarrow> holds_after a P | Some y \<Rightarrow> holds_after (b y) P)"
  by (simp split: option.split)

lemma run_append:
  "run E (xs @ ys) s = (case run E xs s of Inl f \<Rightarrow> Inl f | Inr s1 \<Rightarrow> run E ys s1)"
  by (induction xs arbitrary: s) (simp_all split: sum.split)

lemma run_snoc_Inr:
  "run E ds s0 = Inr s \<Longrightarrow> run E (ds @ [d]) s0 = step E d s"
  by (cases "step E d s") (simp_all add: run_append)

lemma run_prefix:
  assumes "run E ds s0 = Inr s"
  shows "\<exists>s'. run E (take n ds) s0 = Inr s'"
proof -
  have "run E (take n ds @ drop n ds) s0 = Inr s" using assms by simp
  then show ?thesis unfolding run_append by (cases "run E (take n ds) s0") simp_all
qed

lemma run_invariant:
  assumes step: "\<And>d s. I s \<Longrightarrow> holds_after (step E d s) I"
    and "I s0" "run E ds s0 = Inr s"
  shows "I s"
  using assms(2,3)
proof (induction ds arbitrary: s0)
  case Nil
  then show ?case by simp
next
  case (Cons d ds)
  from Cons.prems(2) obtain s1 where s1: "step E d s0 = Inr s1" "run E ds s1 = Inr s"
    by (cases "step E d s0") simp_all
  from step [OF Cons.prems(1), of d] s1(1) have "I s1" by simp
  from Cons.IH [OF this s1(2)] show ?case .
qed

lemma run_invariant_where:
  assumes step: "\<And>d s. Q d \<Longrightarrow> I s \<Longrightarrow> holds_after (step E d s) I"
    and "I s0" "list_all Q ds" "run E ds s0 = Inr s"
  shows "I s"
  using assms(2-4)
proof (induction ds arbitrary: s0)
  case Nil
  then show ?case by simp
next
  case (Cons d ds)
  from Cons.prems(3) obtain s1 where s1: "step E d s0 = Inr s1" "run E ds s1 = Inr s"
    by (cases "step E d s0") simp_all
  from Cons.prems(2) have q: "Q d" "list_all Q ds" by simp_all
  from step [OF q(1) Cons.prems(1)] s1(1) have "I s1" by simp
  from Cons.IH [OF this q(2) s1(2)] show ?case .
qed

section \<open>The scope stacks\<close>

lemma filter_butlast_keep:
  "xs \<noteq> [] \<Longrightarrow> \<not> P (last xs) \<Longrightarrow> filter P (butlast xs) = filter P xs"
  by (cases xs rule: rev_cases) auto

lemma length_filter_butlast_drop:
  "xs \<noteq> [] \<Longrightarrow> P (last xs) \<Longrightarrow> length (filter P (butlast xs)) = length (filter P xs) - 1"
  by (cases xs rule: rev_cases) auto

lemma scope_inv_log [simp]:
  "scope_inv (log_Error loc m args s) = scope_inv s"
  "scope_inv (log_Warning loc m args s) = scope_inv s"
  by (simp_all add: scope_inv_def log_Error_def log_Warning_def)

lemma restore_scope_inv:
  assumes "scope_inv s" "own \<noteq> CHR ''t''"
  shows "holds_after (restore_scope own other m1 m2 s) scope_inv"
  using assms
  by (simp add: restore_scope_def scope_inv_def holds_after_if length_filter_butlast_drop)

lemma scope_inv_step:
  assumes "\<not> is_WorldEnd d" "scope_inv s"
  shows "holds_after (step E d s) scope_inv"
proof (cases d)
  case (Dir_AttributeEnd loc)
  with restore_scope_inv [OF assms(2)] assms(2) show ?thesis
    by (simp add: AttributeEnd_def VERIFY_INITIALIZED_def VERIFY_OPTIONS_def VERIFY_WORLD_def holds_after_if)
next
  case (Dir_TransformEnd loc)
  with assms(2) show ?thesis
    by (auto simp add: TransformEnd_def gate_defs scope_inv_def holds_after_if filter_butlast_keep)
next
  case (Dir_ObjectEnd loc)
  have "scope_inv (s\<lparr>currentInstance := None\<rparr>)"
    using assms(2) by (simp add: scope_inv_def)
  from restore_scope_inv [OF this] Dir_ObjectEnd assms(2) show ?thesis
    by (simp add: ObjectEnd_def gate_defs holds_after_if scope_inv_def)
next
  case (Dir_WorldEnd loc)
  with assms(1) show ?thesis by simp
qed (use assms(2) in \<open>simp_all add: Identity_def Translate_def Transform_def ConcatTransform_def Rotate_def
        Scale_def LookAt_def CoordinateSystem_def CoordSysTransform_def ActiveTransformAll_def
        ActiveTransformEndTime_def ActiveTransformStartTime_def TransformTimes_def ColorSpace_def
        PixelFilter_def Film_def Sampler_def Accelerator_def Integrator_def Camera_def MakeNamedMedium_def
        MediumInterface_def WorldBegin_def AttributeBegin_def Attribute_def TransformBegin_def
        Texture_def Material_def MakeNamedMaterial_def NamedMaterial_def LightSource_def
        AreaLightSource_def Shape_def ReverseOrientation_def ObjectBegin_def ObjectInstance_def
        WARN_IF_ANIMATED_TRANSFORM_def gate_defs Let_def scope_inv_def holds_after_if
        holds_after_case_option split: option.split\<close>)

lemma scope_inv_new: "scope_inv (GeneralScene_new E)"
  by (simp add: scope_inv_def GeneralScene_new_def)

lemma scope_inv_reachable:
  assumes "run E ds (GeneralScene_new E) = Inr s" "list_all (\<lambda>d. \<not> is_WorldEnd d) ds"
  shows "scope_inv s"
  by (rule run_invariant_where [where I = scope_inv and Q = "\<lambda>d. \<not> is_WorldEnd d",
        OF scope_inv_step scope_inv_new assms(2,1)])

lemma world_step:
  "currentApiState s = WorldBlock \<Longrightarrow> holds_after (step E d s) (\<lambda>s'. currentApiState s' = WorldBlock)"
  by (cases d) (simp_all add: directive_defs gate_defs Let_def holds_after_if
        holds_after_case_option split: option.split)

lemma scope_calls_invariant:
  assumes "scope_inv s0" "currentApiState s0 = WorldBlock"
    and "list_all (\<lambda>d. opens d \<noteq> None \<or> closes d \<noteq> None) ds" "run E ds s0 = Inr s"
  shows "scope_inv s \<and> currentApiState s = WorldBlock"
proof (rule run_invariant_where
    [where I = "\<lambda>s. scope_inv s \<and> currentApiState s = WorldBlock"
       and Q = "\<lambda>d. opens d \<noteq> None \<or> closes d \<noteq> None", OF _ _ assms(3,4)])
  show "scope_inv s0 \<and> currentApiState s0 = WorldBlock" using assms(1,2) by simp
next
  fix d and s :: "'a GeneralScene"
  assume q: "opens d \<noteq> None \<or> closes d \<noteq> None"
    and i: "scope_inv s \<and> currentApiState s = WorldBlock"
  from q have "\<not> is_WorldEnd d" by (cases d) simp_all
  from scope_inv_step [OF this, of s E] world_step [of s E d] i
  show "holds_after (step E d s) (\<lambda>s. scope_inv s \<and> currentApiState s = WorldBlock)"
    by (cases "step E d s") simp_all
qed

text \<open>
  Claim C1, as the code has it. The claim's equality of the three stack lengths fails:
  \<^verbatim>\<open>TransformBegin\<close> pushes the transform and the bits but no graphics state. What holds
  for every sequence of scope Begin/End calls, matched or not, that is processed in the
  world block of a container on which no \<^verbatim>\<open>WorldEnd\<close> has been processed, and that does
  not end in a fatal error: before and after every call the pushed transforms, the pushed
  bits and the nesting markers have one length, and there are as many pushed graphics
  states as markers not written by \<^verbatim>\<open>TransformBegin\<close>; at each of these points
  \<^verbatim>\<open>TransformBegin\<close> lengthens the last two stacks only, and \<^verbatim>\<open>AttributeBegin\<close> all
  three. What \<^verbatim>\<open>WorldEnd\<close> leaves on the stacks is no part of the statement.
\<close>

theorem scope_stacks_invariant:
  assumes "run E pre (GeneralScene_new E) = Inr s0" and "list_all (\<lambda>d. \<not> is_WorldEnd d) pre"
    and "currentApiState s0 = WorldBlock"
    and "list_all (\<lambda>d. opens d \<noteq> None \<or> closes d \<noteq> None) ds"
    and "run E ds s0 = Inr s" and "n \<le> length ds"
  shows "\<exists>s'. run E (take n ds) s0 = Inr s' \<and> scope_inv s'
           \<and> map_sum id stack_lengths (TransformBegin loc s')
               = Inr (length (pushedGraphicsStates s'), Suc (length (pushedTransforms s')),
                      Suc (length (pushedActiveTransformBits s')))
           \<and> map_sum id stack_lengths (AttributeBegin loc s')
               = Inr (Suc (length (pushedGraphicsStates s')), Suc (length (pushedTransforms s')),
                      Suc (length (pushedActiveTransformBits s')))"
proof -
  from assms(1,2) have i0: "scope_inv s0" by (rule scope_inv_reachable)
  from run_prefix [OF assms(5)] obtain s' where s': "run E (take n ds) s0 = Inr s'"
    by blast
  have "list_all (\<lambda>d. opens d \<noteq> None \<or> closes d \<noteq> None) (take n ds)"
    using assms(4) by (auto simp: list_all_iff dest: in_set_takeD)
  from scope_calls_invariant [OF i0 assms(3) this s']
  have i: "scope_inv s'" and w: "currentApiState s' = WorldBlock" by simp_all
  from w have "map_sum id stack_lengths (TransformBegin loc s')
         = Inr (length (pushedGraphicsStates s'), Suc (length (pushedTransforms s')),
                Suc (length (pushedActiveTransformBits s')))
     \<and> map_sum id stack_lengths (AttributeBegin loc s')
         = Inr (Suc (length (pushedGraphicsStates s')), Suc (length (pushedTransforms s')),
                Suc (length (pushedActiveTransformBits s')))"
    by (simp add: TransformBegin_def AttributeBegin_def gate_defs stack_lengths_def)
  with s' i show ?thesis by blast
qed

text \<open>Five scope calls after \<^verbatim>\<open>WorldBegin\<close>, the last one an unmatched \<^verbatim>\<open>AttributeEnd\<close>:
  after the first two the lengths are 1, 2 and 2, and the relation holds.\<close>

theorem scope_stacks_invariant_witness:
  "list_all (\<lambda>d. \<not> is_WorldEnd d) [Dir_WorldBegin loc0]
   \<and> list_all (\<lambda>d. opens d \<noteq> None \<or> closes d \<noteq> None) scopes5
   \<and> map_sum id stack_lengths (run symE ([Dir_WorldBegin loc0] @ scopes5) (GeneralScene_new symE))
       = Inr (0, 0, 0)
   \<and> (2::nat) \<le> length scopes5
   \<and> map_sum id stack_lengths (run symE ([Dir_WorldBegin loc0] @ take 2 scopes5) (GeneralScene_new symE))
       = Inr (1, 2, 2)
   \<and> map_sum id scope_inv (run symE ([Dir_WorldBegin loc0] @ take 2 scopes5) (GeneralScene_new symE))
       = Inr True"
proof -
  define s0 where "s0 = projr (run symE [Dir_WorldBegin loc0] (GeneralScene_new symE))"
  have r0: "run symE [Dir_WorldBegin loc0] (GeneralScene_new symE) = Inr s0"
    by (simp add: s0_def eval_defs)
  have w0: "currentApiState s0 = WorldBlock" by (simp add: s0_def eval_defs)
  have q0: "list_all (\<lambda>d. \<not> is_WorldEnd d) [Dir_WorldBegin loc0]" by simp
  have q: "list_all (\<lambda>d. opens d \<noteq> None \<or> closes d \<noteq> None) scopes5"
    by (simp add: scopes5_def)
  define s where "s = projr (run symE scopes5 s0)"
  have r: "run symE scopes5 s0 = Inr s"
    by (simp add: s_def s0_def scopes5_def eval_defs)
  have n: "(2::nat) \<le> length scopes5" by (simp add: scopes5_def)
  from scope_stacks_invariant [OF r0 q0 w0 q r n, of loc0] obtain s'
    where s': "run symE (take 2 scopes5) s0 = Inr s'" "scope_inv s'"
    by blast
  have pre: "run symE ([Dir_WorldBegin loc0] @ xs) (GeneralScene_new symE) = run symE xs s0" for xs
    by (simp only: run_append r0 sum.case)
  have l2: "map_sum id stack_lengths (run symE (take 2 scopes5) s0) = Inr (1, 2, 2)"
    by (simp add: s0_def scopes5_def eval_defs stack_lengths_def)
  have l5: "map_sum id stack_lengths (run symE scopes5 s0) = Inr (0, 0, 0)"
    by (simp add: s0_def scopes5_def eval_defs stack_lengths_def)
  from s' have i2: "map_sum id scope_inv (run symE (take 2 scopes5) s0) = Inr True" by simp
  from q0 q n l2 l5 i2 show ?thesis unfolding pre by (intro conjI)
qed

text \<open>The claim itself fails after \<^verbatim>\<open>WorldBegin; TransformBegin\<close>: no graphics state is
  pushed, one transform and one bit mask are.\<close>

theorem TransformBegin_unequal_lengths:
  "map_sum id stack_lengths
     (run symE [Dir_WorldBegin loc0, Dir_TransformBegin loc0] (GeneralScene_new symE)) = Inr (0, 1, 1)"
  by (simp add: eval_defs stack_lengths_def)

text \<open>Why \<^verbatim>\<open>WorldEnd\<close> is set apart: its two loops pop the pushed graphics states and the
  pushed transforms, and neither the pushed bits nor the markers. After
  \<^verbatim>\<open>WorldBegin; AttributeBegin; WorldEnd\<close> the three lengths are 0, 0 and 1.\<close>

lemma WorldEnd_leaves_bits:
  "map_sum id stack_lengths
     (run symE [Dir_WorldBegin loc0, Dir_AttributeBegin loc0, Dir_WorldEnd loc0] (GeneralScene_new symE))
     = Inr (0, 0, 1)"
  by (simp add: eval_defs stack_lengths_def)

text \<open>The relation that holds with \<^verbatim>\<open>WorldEnd\<close> as well.\<close>

lemma top_markers:
  assumes "T \<noteq> []" "length T \<le> length P"
  shows "drop (length P - length T) (butlast P) = butlast (drop (length P - length T) P)"
    and "drop (length P - length T) P \<noteq> []"
    and "last (drop (length P - length T) P) = last P"
proof -
  from assms(1) have "0 < length T" by simp
  with assms(2) have l: "length P - length T < length P" by arith
  show "drop (length P - length T) (butlast P) = butlast (drop (length P - length T) P)"
    by (simp only: butlast_drop)
  from l show ne: "drop (length P - length T) P \<noteq> []" by simp
  from l show "last (drop (length P - length T) P) = last P" by (simp only: last_drop)
qed

lemma top_markers_pop:
  assumes "T \<noteq> []" "length T \<le> length P" "Q (last P)"
  shows "length (filter Q (drop (length P - length T) (butlast P)))
           = length (filter Q (drop (length P - length T) P)) - 1"
proof -
  note t = top_markers [OF assms(1,2)]
  from assms(3) t(3) have "Q (last (drop (length P - length T) P))" by simp
  from length_filter_butlast_drop [OF t(2), of Q, OF this] show ?thesis
    by (simp only: t(1))
qed

lemma top_markers_keep:
  assumes "T \<noteq> []" "length T \<le> length P" "\<not> Q (last P)"
  shows "filter Q (drop (length P - length T) (butlast P)) = filter Q (drop (length P - length T) P)"
proof -
  note t = top_markers [OF assms(1,2)]
  from assms(3) t(3) have "\<not> Q (last (drop (length P - length T) P))" by simp
  from filter_butlast_keep [OF t(2), of Q, OF this] show ?thesis
    by (simp only: t(1))
qed

lemma stack_inv_log [simp]:
  "stack_inv (log_Error loc m args s) = stack_inv s"
  "stack_inv (log_Warning loc m args s) = stack_inv s"
  by (simp_all add: stack_inv_def log_Error_def log_Warning_def)

lemma stack_inv_transforms:
  assumes "stack_inv s" "pushedGraphicsStates s \<noteq> []"
  shows "pushedTransforms s \<noteq> []"
proof
  assume "pushedTransforms s = []"
  with assms(1) have "pushedGraphicsStates s = []" by (simp add: stack_inv_def)
  with assms(2) show False by simp
qed

lemma stack_inv_pop:
  assumes "stack_inv s" "pushedTransforms s \<noteq> []" "fst (last (pushStack s)) \<noteq> CHR ''t''"
    and "pushedTransforms s' = butlast (pushedTransforms s)"
    and "pushedActiveTransformBits s' = butlast (pushedActiveTransformBits s)"
    and "pushStack s' = butlast (pushStack s)"
    and "pushedGraphicsStates s' = butlast (pushedGraphicsStates s)"
  shows "stack_inv s'"
proof -
  from assms(1) have le: "length (pushedTransforms s) \<le> length (pushStack s)"
    by (simp add: stack_inv_def)
  from top_markers_pop [OF assms(2) le, of "\<lambda>m. fst m \<noteq> CHR ''t''"] assms(3)
  have "length (filter (\<lambda>m. fst m \<noteq> CHR ''t'')
          (drop (length (pushStack s) - length (pushedTransforms s)) (butlast (pushStack s))))
        = length (filter (\<lambda>m. fst m \<noteq> CHR ''t'')
          (drop (length (pushStack s) - length (pushedTransforms s)) (pushStack s))) - 1"
    by simp
  with assms(1,2) le show ?thesis
    by (simp add: stack_inv_def assms(4-7))
qed

lemma stack_inv_pop_transform:
  assumes "stack_inv s" "pushedTransforms s \<noteq> []" "fst (last (pushStack s)) = CHR ''t''"
    and "pushedTransforms s' = butlast (pushedTransforms s)"
    and "pushedActiveTransformBits s' = butlast (pushedActiveTransformBits s)"
    and "pushStack s' = butlast (pushStack s)"
    and "pushedGraphicsStates s' = pushedGraphicsStates s"
  shows "stack_inv s'"
proof -
  from assms(1) have le: "length (pushedTransforms s) \<le> length (pushStack s)"
    by (simp add: stack_inv_def)
  from top_markers_keep [OF assms(2) le, of "\<lambda>m. fst m \<noteq> CHR ''t''"] assms(3)
  have "filter (\<lambda>m. fst m \<noteq> CHR ''t'')
          (drop (length (pushStack s) - length (pushedTransforms s)) (butlast (pushStack s)))
        = filter (\<lambda>m. fst m \<noteq> CHR ''t'')
          (drop (length (pushStack s) - length (pushedTransforms s)) (pushStack s))"
    by simp
  with assms(1,2) le show ?thesis
    by (simp add: stack_inv_def assms(4-7))
qed

lemma restore_scope_stack_inv:
  assumes "stack_inv s" "own \<noteq> CHR ''t''"
  shows "holds_after (restore_scope own other m1 m2 s) stack_inv"
proof (cases "restore_scope own other m1 m2 s")
  case (Inl f)
  then show ?thesis by (simp add: holds_after_def)
next
  case (Inr s')
  then have c: "pushedTransforms s \<noteq> []" "fst (last (pushStack s)) \<noteq> CHR ''t''"
    and s': "s' = s\<lparr>graphicsState := last (pushedGraphicsStates s),
                  pushedGraphicsStates := butlast (pushedGraphicsStates s),
                  curTransform := last (pushedTransforms s),
                  pushedTransforms := butlast (pushedTransforms s),
                  activeTransformBits := last (pushedActiveTransformBits s),
                  pushedActiveTransformBits := butlast (pushedActiveTransformBits s),
                  pushStack := butlast (pushStack s)\<rparr>"
    by (simp_all add: restore_scope_def split: if_splits)
  have "stack_inv s'"
    by (rule stack_inv_pop [OF assms(1) c]) (simp_all add: s')
  with Inr show ?thesis by (simp add: holds_after_def)
qed

lemma TransformEnd_stack_inv:
  assumes "stack_inv s"
  shows "holds_after (TransformEnd loc s) stack_inv"
proof (cases "pushedTransforms s = [] \<or> currentApiState s = Uninitialized
                \<or> currentApiState s = OptionsBlock")
  case True
  with assms show ?thesis
    by (auto simp add: TransformEnd_def VERIFY_INITIALIZED_def VERIFY_WORLD_def holds_after_if)
next
  case False
  show ?thesis
  proof (cases "TransformEnd loc s")
    case (Inl f)
    then show ?thesis by (simp add: holds_after_def)
  next
    case (Inr s')
    with False have c: "pushedTransforms s \<noteq> []" "fst (last (pushStack s)) = CHR ''t''"
      and s': "s' = s\<lparr>curTransform := last (pushedTransforms s),
                    pushedTransforms := butlast (pushedTransforms s),
                    activeTransformBits := last (pushedActiveTransformBits s),
                    pushedActiveTransformBits := butlast (pushedActiveTransformBits s),
                    pushStack := butlast (pushStack s)\<rparr>"
      by (simp_all add: TransformEnd_def VERIFY_INITIALIZED_def VERIFY_WORLD_def split: if_splits)
    have "stack_inv s'"
      by (rule stack_inv_pop_transform [OF assms c]) (simp_all add: s')
    with Inr show ?thesis by (simp add: holds_after_def)
  qed
qed

lemma stack_inv_step:
  assumes "stack_inv s"
  shows "holds_after (step E d s) stack_inv"
proof (cases d)
  case (Dir_AttributeEnd loc)
  with restore_scope_stack_inv [OF assms] assms show ?thesis
    by (simp add: AttributeEnd_def VERIFY_INITIALIZED_def VERIFY_OPTIONS_def VERIFY_WORLD_def holds_after_if)
next
  case (Dir_TransformEnd loc)
  with TransformEnd_stack_inv [OF assms] show ?thesis by simp
next
  case (Dir_ObjectEnd loc)
  have "stack_inv (s\<lparr>currentInstance := None\<rparr>)"
    using assms by (simp add: stack_inv_def)
  from restore_scope_stack_inv [OF this] Dir_ObjectEnd assms show ?thesis
    by (simp add: ObjectEnd_def VERIFY_INITIALIZED_def VERIFY_OPTIONS_def VERIFY_WORLD_def holds_after_if)
qed (use assms in \<open>simp_all add: directive_defs gate_defs Let_def stack_inv_def holds_after_if
        holds_after_case_option split: option.split\<close>)

lemma stack_inv_new: "stack_inv (GeneralScene_new E)"
  by (simp add: stack_inv_def GeneralScene_new_def)

lemma stack_inv_reachable:
  "run E ds (GeneralScene_new E) = Inr s \<Longrightarrow> stack_inv s"
  by (rule run_invariant [where I = stack_inv, OF stack_inv_step stack_inv_new])

text \<open>
  Claim C2, as the code has it. \<^verbatim>\<open>AttributeEnd\<close> first asks whether any graphics state
  is pushed. At any point of a run in the world block where the innermost open scope is
  one of \<^verbatim>\<open>TransformBegin\<close>: with a graphics state pushed (an enclosing
  \<^verbatim>\<open>AttributeBegin\<close> or \<^verbatim>\<open>ObjectBegin\<close> is open) the directive ends in the fatal
  mismatched-nesting error; with none pushed it is reported as an unmatched
  \<^verbatim>\<open>AttributeEnd\<close> and ignored, the scene staying as it was.
\<close>

theorem AttributeEnd_open_TransformBegin:
  assumes "run E ds (GeneralScene_new E) = Inr s"
    and "currentApiState s = WorldBlock"
    and "pushStack s \<noteq> []" and "fst (last (pushStack s)) = CHR ''t''"
  shows "AttributeEnd loc s =
           (if pushedGraphicsStates s = []
            then Inr (log_Error loc ''Unmatched AttributeEnd encountered. Ignoring it.'' [] s)
            else Inl (ErrorExit ''Mismatched nesting: open TransformBegin from %s at AttributeEnd'' []))"
proof -
  from assms(1) have i: "stack_inv s" by (rule stack_inv_reachable)
  with assms(3) have b: "pushedActiveTransformBits s \<noteq> []"
    by (auto simp: stack_inv_def)
  from i have "pushedTransforms s \<noteq> []" if "pushedGraphicsStates s \<noteq> []"
    using that by (rule stack_inv_transforms)
  with b assms(2-4) show ?thesis
    by (simp add: AttributeEnd_def restore_scope_def gate_defs)
qed

theorem AttributeEnd_open_TransformBegin_witness:
  "run symE ([Dir_WorldBegin loc0, Dir_AttributeBegin loc0, Dir_TransformBegin loc0] @ [Dir_AttributeEnd loc0])
       (GeneralScene_new symE)
     = Inl (ErrorExit ''Mismatched nesting: open TransformBegin from %s at AttributeEnd'' [])"
proof -
  let ?ds = "[Dir_WorldBegin loc0, Dir_AttributeBegin loc0, Dir_TransformBegin loc0]"
  define s where "s = projr (run symE ?ds (GeneralScene_new symE))"
  have r: "run symE ?ds (GeneralScene_new symE) = Inr s"
    by (simp add: s_def eval_defs)
  have w: "currentApiState s = WorldBlock" and p: "pushStack s \<noteq> []"
    and t: "fst (last (pushStack s)) = CHR ''t''" and g: "pushedGraphicsStates s \<noteq> []"
    by (simp_all add: s_def eval_defs)
  from AttributeEnd_open_TransformBegin [OF r w p t, of loc0] g
  have "AttributeEnd loc0 s = Inl (ErrorExit ''Mismatched nesting: open TransformBegin from %s at AttributeEnd'' [])"
    by simp
  then show ?thesis unfolding run_append r by simp
qed

text \<open>The claim itself fails on \<^verbatim>\<open>WorldBegin; TransformBegin; AttributeEnd\<close>: the run
  does not end, and the only report is the recoverable one.\<close>

theorem TransformBegin_AttributeEnd_ignored:
  "map_sum id diagnostics
     (run symE [Dir_WorldBegin loc0, Dir_TransformBegin loc0, Dir_AttributeEnd loc0] (GeneralScene_new symE))
   = Inr [Error loc0 ''Unmatched AttributeEnd encountered. Ignoring it.'' []]"
  by (simp add: eval_defs)

section \<open>The current transform\<close>

lemma initialized_step:
  "currentApiState s \<noteq> Uninitialized \<Longrightarrow> holds_after (step E d s) (\<lambda>s'. currentApiState s' \<noteq> Uninitialized)"
  by (cases d) (simp_all add: directive_defs gate_defs Let_def holds_after_if
        holds_after_case_option split: option.split)

lemma initialized_reachable:
  assumes "run E ds (GeneralScene_new E) = Inr s"
  shows "currentApiState s \<noteq> Uninitialized"
  by (rule run_invariant [where I = "\<lambda>s. currentApiState s \<noteq> Uninitialized", OF initialized_step _ assms])
     (simp_all add: GeneralScene_new_def)

lemma FOR_ACTIVE_TRANSFORMS_get:
  assumes "i < MaxTransforms"
  shows "ts_get (FOR_ACTIVE_TRANSFORMS bits expr ts) i
           = (if selected bits i then expr (ts_get ts i) else ts_get ts i)"
proof -
  obtain a b where ts: "ts = TransformSet a b" by (cases ts)
  note loop = loop_indices
  from assms have "i = 0 \<or> i = Suc 0" by (auto simp: MaxTransforms_def)
  then show ?thesis
    by (auto simp: FOR_ACTIVE_TRANSFORMS_def loop ts selected_def)
qed

text \<open>
  Claim C8. At any point of a run, for each of the two time indices: \<^verbatim>\<open>Translate\<close>,
  \<^verbatim>\<open>Rotate\<close>, \<^verbatim>\<open>Scale\<close>, \<^verbatim>\<open>ConcatTransform\<close> and \<^verbatim>\<open>LookAt\<close> leave in a
  selected slot the product of its former value and the operator (for
  \<^verbatim>\<open>ConcatTransform\<close> the transpose of the given matrix), \<^verbatim>\<open>Identity\<close> leaves the
  identity, \<^verbatim>\<open>Transform\<close> leaves the transpose of the given matrix, and a slot that is
  not selected keeps its value. None of the seven can fail.
\<close>

theorem composition_directives:
  assumes "run E ds (GeneralScene_new E) = Inr s" and "i < MaxTransforms"
  shows "map_sum id (slot i) (step E (Dir_Translate dx dy dz loc) s)
           = Inr (if selected (activeTransformBits s) i
                  then T_mul E (slot i s) (T_Translate E (dx, dy, dz)) else slot i s)
       \<and> map_sum id (slot i) (step E (Dir_Rotate angle dx dy dz loc) s)
           = Inr (if selected (activeTransformBits s) i
                  then T_mul E (slot i s) (T_Rotate E angle (dx, dy, dz)) else slot i s)
       \<and> map_sum id (slot i) (step E (Dir_Scale sx sy sz loc) s)
           = Inr (if selected (activeTransformBits s) i
                  then T_mul E (slot i s) (T_Scale E sx sy sz) else slot i s)
       \<and> map_sum id (slot i) (step E (Dir_ConcatTransform tr loc) s)
           = Inr (if selected (activeTransformBits s) i
                  then T_mul E (slot i s) (T_Transpose E (T_fromMatrix E tr)) else slot i s)
       \<and> map_sum id (slot i) (step E (Dir_LookAt eye look up loc) s)
           = Inr (if selected (activeTransformBits s) i
                  then T_mul E (slot i s) (T_LookAt E eye look up) else slot i s)
       \<and> map_sum id (slot i) (step E (Dir_Identity loc) s)
           = Inr (if selected (activeTransformBits s) i then T_identity E else slot i s)
       \<and> map_sum id (slot i) (step E (Dir_Transform tr loc) s)
           = Inr (if selected (activeTransformBits s) i
                  then T_Transpose E (T_fromMatrix E tr) else slot i s)"
proof -
  from assms(1) have init: "currentApiState s \<noteq> Uninitialized"
    by (rule initialized_reachable)
  note get = FOR_ACTIVE_TRANSFORMS_get [OF assms(2)]
  show ?thesis
    using init
    by (simp add: Translate_def Rotate_def Scale_def ConcatTransform_def LookAt_def Identity_def
        Transform_def VERIFY_INITIALIZED_def slot_def get Let_def)
qed

text \<open>After \<^verbatim>\<open>Translate 1 0 0; ActiveTransformStartTime\<close>, a \<^verbatim>\<open>Scale 2 2 2\<close> multiplies
  the start slot and leaves the end slot.\<close>

theorem composition_directives_witness:
  "(1::nat) < MaxTransforms
   \<and> map_sum id (slot 1)
        (run symE ([Dir_Translate 1 0 0 loc0, Dir_ActiveTransformStartTime loc0] @ [Dir_Scale 2 2 2 loc0])
           (GeneralScene_new symE))
       = Inr (S_mul S_identity (S_Translate 1 0 0))
   \<and> map_sum id (slot 0)
        (run symE ([Dir_Translate 1 0 0 loc0, Dir_ActiveTransformStartTime loc0] @ [Dir_Scale 2 2 2 loc0])
           (GeneralScene_new symE))
       = Inr (S_mul (S_mul S_identity (S_Translate 1 0 0)) (S_Scale 2 2 2))"
proof -
  let ?ds = "[Dir_Translate 1 0 0 loc0, Dir_ActiveTransformStartTime loc0]"
  define s where "s = projr (run symE ?ds (GeneralScene_new symE))"
  have r: "run symE ?ds (GeneralScene_new symE) = Inr s"
    by (simp add: s_def eval_defs)
  have i1: "(1::nat) < MaxTransforms" and i0: "(0::nat) < MaxTransforms"
    by (simp_all add: MaxTransforms_def)
  have vals: "slot 1 s = S_mul S_identity (S_Translate 1 0 0)"
    "slot 0 s = S_mul S_identity (S_Translate 1 0 0)"
    "\<not> selected (activeTransformBits s) 1" "selected (activeTransformBits s) 0"
    by (simp_all add: s_def eval_defs slot_def selected_def)
  have E: "T_mul symE = S_mul" "T_Scale symE = S_Scale" by (simp_all add: symE_def)
  from composition_directives [OF r i1, where sx = 2 and sy = 2 and sz = 2 and loc = loc0]
  have "map_sum id (slot 1) (step symE (Dir_Scale 2 2 2 loc0) s) = Inr (S_mul S_identity (S_Translate 1 0 0))"
    using vals by simp
  moreover from composition_directives [OF r i0, where sx = 2 and sy = 2 and sz = 2 and loc = loc0]
  have "map_sum id (slot 0) (step symE (Dir_Scale 2 2 2 loc0) s)
          = Inr (S_mul (S_mul S_identity (S_Translate 1 0 0)) (S_Scale 2 2 2))"
    using vals E by simp
  moreover have "run symE (?ds @ [Dir_Scale 2 2 2 loc0]) (GeneralScene_new symE)
      = step symE (Dir_Scale 2 2 2 loc0) s"
    by (rule run_snoc_Inr [OF r])
  ultimately show ?thesis
    using i1 by (simp only: One_nat_def simp_thms)
qed

section \<open>The named registries\<close>

text \<open>
  Claim C3, as the code has it. Three registries are checked on insertion: wherever the
  state gate lets the directive through, \<^verbatim>\<open>MakeNamedMaterial\<close>, \<^verbatim>\<open>MakeNamedMedium\<close> and
  \<^verbatim>\<open>ObjectBegin\<close> with a registered name end in a fatal error and store nothing. The
  registry of coordinate systems is not checked: \<^verbatim>\<open>CoordinateSystem\<close> stores the current
  transform set under the name whether or not the name is registered, without a report.
\<close>

theorem named_registries_checked:
  "(currentApiState s = WorldBlock \<and> namedMaterials s name \<noteq> None \<longrightarrow>
      MakeNamedMaterial name params loc s = Inl (ErrorExit ''%s: named material redefined.'' [name]))
 \<and> (currentApiState s \<noteq> Uninitialized \<and> media s name \<noteq> None \<longrightarrow>
      MakeNamedMedium E name params loc s = Inl (ErrorExit ''Named medium %s redefined.'' [name]))
 \<and> (currentApiState s = WorldBlock \<and> instanceDefinitions s name \<noteq> None \<longrightarrow>
      ObjectBegin name loc s =
        Inl (if currentInstance s \<noteq> None
             then ErrorExit ''ObjectBegin called inside of instance definition'' []
             else ErrorExit ''%s: trying to redefine an object instance'' [name]))
 \<and> (currentApiState s \<noteq> Uninitialized \<longrightarrow>
      CoordinateSystem name loc s =
        Inr (s\<lparr>namedCoordinateSystems := (namedCoordinateSystems s)(name \<mapsto> curTransform s)\<rparr>))"
  by (simp add: MakeNamedMaterial_def MakeNamedMedium_def ObjectBegin_def Attribute_def
      CoordinateSystem_def WARN_IF_ANIMATED_TRANSFORM_def gate_defs Let_def)

text \<open>A second \<^verbatim>\<open>MakeNamedMaterial\<close> for the same name ends the run.\<close>

theorem named_registries_checked_witness:
  "run symE ([Dir_WorldBegin loc0, Dir_MakeNamedMaterial ''m'' [] loc0] @ [Dir_MakeNamedMaterial ''m'' [] loc0])
       (GeneralScene_new symE)
     = Inl (ErrorExit ''%s: named material redefined.'' [''m''])"
proof -
  let ?ds = "[Dir_WorldBegin loc0, Dir_MakeNamedMaterial ''m'' [] loc0]"
  define s where "s = projr (run symE ?ds (GeneralScene_new symE))"
  have r: "run symE ?ds (GeneralScene_new symE) = Inr s"
    by (simp add: s_def eval_defs)
  have "currentApiState s = WorldBlock" "namedMaterials s ''m'' \<noteq> None"
    by (simp_all add: s_def eval_defs)
  with named_registries_checked [of s "''m''" "[]" loc0 symE]
  have "MakeNamedMaterial ''m'' [] loc0 s = Inl (ErrorExit ''%s: named material redefined.'' [''m''])"
    by simp
  then show ?thesis
    by (simp only: run_snoc_Inr [OF r] step.simps)
qed

text \<open>The claim itself fails for the coordinate systems: the second
  \<^verbatim>\<open>CoordinateSystem\<close> for a name replaces what the first stored, and nothing is
  reported.\<close>

theorem CoordinateSystem_overwrites:
  "map_sum id (coordsys_and_log ''a'')
     (run symE [Dir_CoordinateSystem ''a'' loc0] (GeneralScene_new symE))
     = Inr (Some (TransformSet S_identity S_identity), [])
 \<and> map_sum id (coordsys_and_log ''a'')
     (run symE [Dir_CoordinateSystem ''a'' loc0, Dir_Translate 1 0 0 loc0, Dir_CoordinateSystem ''a'' loc0]
        (GeneralScene_new symE))
     = Inr (Some (TransformSet (S_mul S_identity (S_Translate 1 0 0))
                               (S_mul S_identity (S_Translate 1 0 0))), [])"
  by (simp add: eval_defs coordsys_and_log_def)

section \<open>The API state gate\<close>

lemma world_gate_rejects:
  assumes "currentApiState s = OptionsBlock" "world_gate d = Some (func, loc)"
  shows "step E d s =
           Inr (log_Error loc ''Scene description must be inside world block; %s not allowed. Ignoring.'' [func] s)"
  using assms
  by (cases d) (simp_all add: directive_defs VERIFY_WORLD_def VERIFY_INITIALIZED_def)

lemma initialized_gate_accepts:
  assumes "initialized_gate d"
  shows "step E d (s\<lparr>currentApiState := OptionsBlock\<rparr>)
           = map_sum id (currentApiState_update (\<lambda>a. OptionsBlock)) (step E d (s\<lparr>currentApiState := WorldBlock\<rparr>))"
  using assms
  by (cases d) (simp_all add: directive_defs VERIFY_INITIALIZED_def log_Warning_def log_Error_def Let_def
        freeze_CTM_def GetCTM_def split: option.split)

text \<open>
  Claim C7, as the code has it. In the options-block state a directive whose body starts
  with \<^verbatim>\<open>VERIFY_WORLD\<close> (scopes, \<^verbatim>\<open>Texture\<close>, the material directives, the light
  directives, \<^verbatim>\<open>Shape\<close>, \<^verbatim>\<open>ReverseOrientation\<close>, the object directives, \<^verbatim>\<open>WorldEnd\<close>) reports a
  recoverable error and leaves every other part of the scene as it was. A directive
  that starts with \<^verbatim>\<open>VERIFY_INITIALIZED\<close> alone (the transform directives,
  \<^verbatim>\<open>CoordinateSystem\<close>, \<^verbatim>\<open>CoordSysTransform\<close>, \<^verbatim>\<open>ColorSpace\<close>, \<^verbatim>\<open>MakeNamedMedium\<close>,
  \<^verbatim>\<open>MediumInterface\<close>, \<^verbatim>\<open>Attribute\<close>) does in the options block exactly what it does in
  the world block. The three \<^verbatim>\<open>ActiveTransform\<close> directives have no gate: in every
  state they set the bit mask.
\<close>

theorem world_block_gate:
  "(currentApiState s = OptionsBlock \<and> world_gate d = Some (func, loc) \<longrightarrow>
      step E d s =
        Inr (log_Error loc ''Scene description must be inside world block; %s not allowed. Ignoring.'' [func] s))
 \<and> (initialized_gate d' \<longrightarrow>
      step E d' (s\<lparr>currentApiState := OptionsBlock\<rparr>)
        = map_sum id (currentApiState_update (\<lambda>a. OptionsBlock))
            (step E d' (s\<lparr>currentApiState := WorldBlock\<rparr>)))
 \<and> step E (Dir_ActiveTransformAll l) s = Inr (s\<lparr>activeTransformBits := AllTransformsBits\<rparr>)
 \<and> step E (Dir_ActiveTransformEndTime l) s = Inr (s\<lparr>activeTransformBits := EndTransformBits\<rparr>)
 \<and> step E (Dir_ActiveTransformStartTime l) s = Inr (s\<lparr>activeTransformBits := StartTransformBits\<rparr>)"
  using world_gate_rejects [of s d func loc E] initialized_gate_accepts [of d' E s]
  by (simp add: ActiveTransformAll_def ActiveTransformEndTime_def ActiveTransformStartTime_def)

text \<open>A \<^verbatim>\<open>Shape\<close> before \<^verbatim>\<open>WorldBegin\<close> is reported and ignored.\<close>

theorem world_block_gate_witness:
  "currentApiState (GeneralScene_new symE) = OptionsBlock
   \<and> world_gate (Dir_Shape ''sphere'' [] loc0) = Some (''Shape'', loc0)
   \<and> step symE (Dir_Shape ''sphere'' [] loc0) (GeneralScene_new symE)
       = Inr (log_Error loc0 ''Scene description must be inside world block; %s not allowed. Ignoring.''
                [''Shape''] (GeneralScene_new symE))"
proof -
  have h: "currentApiState (GeneralScene_new symE) = OptionsBlock"
    "world_gate (Dir_Shape ''sphere'' [] loc0) = Some (''Shape'', loc0)"
    by (simp_all add: GeneralScene_new_def)
  from world_block_gate [of "GeneralScene_new symE" "Dir_Shape ''sphere'' [] loc0" "''Shape''" loc0 symE] h
  show ?thesis by blast
qed

text \<open>The claim itself fails for \<^verbatim>\<open>ActiveTransformEndTime\<close> issued first: the state is
  still the options block, nothing is reported, and the bit mask has changed.\<close>

theorem ActiveTransform_not_gated:
  "gate_and_bits (GeneralScene_new symE) = (OptionsBlock, 3, [])
   \<and> map_sum id gate_and_bits (run symE [Dir_ActiveTransformEndTime loc0] (GeneralScene_new symE))
       = Inr (OptionsBlock, 2, [])"
  by (simp add: eval_defs gate_and_bits_def)

section \<open>The current material\<close>

lemma material_ref_ok_mono:
  "material_ref_ok N n g \<Longrightarrow> n \<le> m \<Longrightarrow> set N \<subseteq> set N' \<Longrightarrow> material_ref_ok N' m g"
  by (auto simp: material_ref_ok_def)

lemma material_inv_mono:
  "material_inv N s \<Longrightarrow> set N \<subseteq> set N' \<Longrightarrow> material_inv N' s"
  by (auto simp: material_inv_def list_all_iff intro: material_ref_ok_mono)

lemma list_all_butlast: "list_all P xs \<Longrightarrow> list_all P (butlast xs)"
  by (induction xs) auto

lemma list_all_last: "list_all P xs \<Longrightarrow> xs \<noteq> [] \<Longrightarrow> P (last xs)"
  by (induction xs) auto

lemma material_inv_log [simp]:
  "material_inv N (log_Error loc m args s) = material_inv N s"
  "material_inv N (log_Warning loc m args s) = material_inv N s"
  by (simp_all add: material_inv_def log_Error_def log_Warning_def)

lemma named_so_far_simps:
  "named_so_far [] = []"
  "named_so_far (d # ds) = (case NamedMaterial_arg d of None \<Rightarrow> [] | Some n \<Rightarrow> [n]) @ named_so_far ds"
  by (simp_all add: named_so_far_def map_filter_simps split: option.split)

lemma restore_scope_material:
  assumes "material_inv N s"
  shows "holds_after (restore_scope own other m1 m2 s) (material_inv N)"
  using assms
  by (simp add: restore_scope_def material_inv_def holds_after_if list_all_butlast list_all_last)

lemma material_inv_step:
  assumes "material_inv N s"
  shows "holds_after (step E d s) (material_inv (N @ named_so_far [d]))"
proof (cases d)
  case (Dir_AttributeEnd loc)
  with restore_scope_material [OF assms] assms show ?thesis
    by (simp add: AttributeEnd_def VERIFY_INITIALIZED_def VERIFY_OPTIONS_def VERIFY_WORLD_def
        holds_after_if named_so_far_simps)
next
  case (Dir_ObjectEnd loc)
  have "material_inv N (s\<lparr>currentInstance := None\<rparr>)"
    using assms by (simp add: material_inv_def)
  from restore_scope_material [OF this] Dir_ObjectEnd assms show ?thesis
    by (simp add: ObjectEnd_def VERIFY_INITIALIZED_def VERIFY_OPTIONS_def VERIFY_WORLD_def
        holds_after_if named_so_far_simps)
next
  case (Dir_Material name params loc)
  have "list_all (material_ref_ok N (Suc (length (materials s)))) (pushedGraphicsStates s)"
    using assms by (auto simp: material_inv_def list_all_iff intro: material_ref_ok_mono)
  with Dir_Material assms show ?thesis
    by (simp add: Material_def gate_defs holds_after_if Let_def material_inv_def material_ref_ok_def
        named_so_far_simps)
next
  case (Dir_NamedMaterial name loc)
  from assms have i: "material_inv (N @ [name]) s"
    by (rule material_inv_mono) auto
  then have "list_all (material_ref_ok (N @ [name]) (length (materials s))) (pushedGraphicsStates s)"
    by (simp add: material_inv_def)
  with Dir_NamedMaterial i show ?thesis
    by (simp add: NamedMaterial_def gate_defs holds_after_if material_inv_def material_ref_ok_def
        named_so_far_simps)
qed (use assms in \<open>simp_all add: directive_defs gate_defs named_so_far_simps
        Let_def material_inv_def holds_after_if holds_after_case_option material_ref_ok_def
        split: option.split\<close>)

lemma material_inv_new: "material_inv [] (GeneralScene_new E)"
  by (simp add: material_inv_def material_ref_ok_def GeneralScene_new_def GraphicsState_new_def)

lemma material_inv_run:
  "run E ds s0 = Inr s \<Longrightarrow> material_inv N s0 \<Longrightarrow> material_inv (N @ named_so_far ds) s"
proof (induction ds arbitrary: s0 N)
  case Nil
  then show ?case by (simp add: named_so_far_simps)
next
  case (Cons d ds)
  from Cons.prems(1) obtain s1 where s1: "step E d s0 = Inr s1" and r: "run E ds s1 = Inr s"
    by (cases "step E d s0") simp_all
  from material_inv_step [OF Cons.prems(2), of E d] s1
  have "material_inv (N @ named_so_far [d]) s1" by (simp add: holds_after_def)
  from Cons.IH [OF r this] show ?case
    by (simp add: named_so_far_simps)
qed

text \<open>
  Claim C9, as the code has it. At every point of a run the current material reference
  is either an index into the material list with an empty name, or the sentinel
  \<open>-1\<close> with a name that one of the \<^verbatim>\<open>NamedMaterial\<close> directives processed so far was given;
  that name is not empty unless one of them was given the empty name. In the world block
  \<^verbatim>\<open>Material\<close> appends its entity to the list, sets the index to the new last position
  and clears the name; \<^verbatim>\<open>NamedMaterial\<close> sets the index to \<open>-1\<close> and the name to its
  argument and leaves the list alone.
\<close>

theorem material_reference:
  assumes "run E ds (GeneralScene_new E) = Inr s"
  shows "material_ref_ok (named_so_far ds) (length (materials s)) (graphicsState s)
       \<and> ([] \<notin> set (named_so_far ds) \<longrightarrow>
            (0 \<le> currentMaterialIndex (graphicsState s)
               \<and> currentMaterialIndex (graphicsState s) < int (length (materials s))
               \<and> currentMaterialName (graphicsState s) = [])
          \<or> (currentMaterialIndex (graphicsState s) = - 1 \<and> currentMaterialName (graphicsState s) \<noteq> []))
       \<and> (currentApiState s = WorldBlock \<longrightarrow>
            map_sum id material_state (Material name params loc s)
              = Inr (materials s @
                       [GeneralSceneEntity name
                          (ParameterDictionary params (materialAttributes (graphicsState s))
                             (Some (colorSpace (graphicsState s)))) loc],
                     int (length (materials s)), [])
          \<and> map_sum id material_state (NamedMaterial name' loc' s) = Inr (materials s, - 1, name'))"
proof -
  from material_inv_run [OF assms material_inv_new]
  have "material_inv (named_so_far ds) s" by simp
  then have ok: "material_ref_ok (named_so_far ds) (length (materials s)) (graphicsState s)"
    by (simp add: material_inv_def)
  then have "[] \<notin> set (named_so_far ds) \<longrightarrow>
            (0 \<le> currentMaterialIndex (graphicsState s)
               \<and> currentMaterialIndex (graphicsState s) < int (length (materials s))
               \<and> currentMaterialName (graphicsState s) = [])
          \<or> (currentMaterialIndex (graphicsState s) = - 1 \<and> currentMaterialName (graphicsState s) \<noteq> [])"
    by (auto simp: material_ref_ok_def)
  moreover have "currentApiState s = WorldBlock \<longrightarrow>
            map_sum id material_state (Material name params loc s)
              = Inr (materials s @
                       [GeneralSceneEntity name
                          (ParameterDictionary params (materialAttributes (graphicsState s))
                             (Some (colorSpace (graphicsState s)))) loc],
                     int (length (materials s)), [])
          \<and> map_sum id material_state (NamedMaterial name' loc' s) = Inr (materials s, - 1, name')"
    by (simp add: Material_def NamedMaterial_def gate_defs material_state_def Let_def)
  ultimately show ?thesis using ok by blast
qed

text \<open>After \<^verbatim>\<open>WorldBegin; Material "plastic"\<close> the index is 1; a \<^verbatim>\<open>NamedMaterial "gold"\<close>
  then sets the sentinel and the name.\<close>

theorem material_reference_witness:
  "map_sum id material_state
     (run symE [Dir_WorldBegin loc0, Dir_Material ''plastic'' [] loc0] (GeneralScene_new symE))
     = Inr ([GeneralSceneEntity ''diffuse'' (ParameterDictionary [] [] (Some sRGB)) FileLoc_default,
             GeneralSceneEntity ''plastic'' (ParameterDictionary [] [] (Some sRGB)) loc0], 1, [])
   \<and> map_sum id material_state
     (run symE ([Dir_WorldBegin loc0, Dir_Material ''plastic'' [] loc0] @ [Dir_NamedMaterial ''gold'' loc0])
        (GeneralScene_new symE))
     = Inr ([GeneralSceneEntity ''diffuse'' (ParameterDictionary [] [] (Some sRGB)) FileLoc_default,
             GeneralSceneEntity ''plastic'' (ParameterDictionary [] [] (Some sRGB)) loc0], - 1, ''gold'')"
proof -
  let ?ds = "[Dir_WorldBegin loc0, Dir_Material ''plastic'' [] loc0]"
  define s where "s = projr (run symE ?ds (GeneralScene_new symE))"
  have r: "run symE ?ds (GeneralScene_new symE) = Inr s"
    by (simp add: s_def eval_defs)
  have w: "currentApiState s = WorldBlock"
    and m: "material_state s =
      ([GeneralSceneEntity ''diffuse'' (ParameterDictionary [] [] (Some sRGB)) FileLoc_default,
        GeneralSceneEntity ''plastic'' (ParameterDictionary [] [] (Some sRGB)) loc0], 1, [])"
    by (simp_all add: s_def eval_defs material_state_def sRGB_def)
  from m have ms: "materials s =
      [GeneralSceneEntity ''diffuse'' (ParameterDictionary [] [] (Some sRGB)) FileLoc_default,
       GeneralSceneEntity ''plastic'' (ParameterDictionary [] [] (Some sRGB)) loc0]"
    by (simp add: material_state_def)
  from material_reference [where name' = "''gold''" and loc' = loc0, OF r] w
  have "map_sum id material_state (step symE (Dir_NamedMaterial ''gold'' loc0) s)
          = Inr (materials s, - 1, ''gold'')"
    by simp
  then show ?thesis
    unfolding run_snoc_Inr [OF r] r ms using m by simp
qed

text \<open>The claim itself fails for the empty name: after \<^verbatim>\<open>NamedMaterial ""\<close> the index
  is the sentinel and the name is empty, which is neither of the two alternatives.\<close>

theorem NamedMaterial_empty_name:
  "map_sum id material_state
     (run symE [Dir_WorldBegin loc0, Dir_NamedMaterial [] loc0] (GeneralScene_new symE))
     = Inr ([GeneralSceneEntity ''diffuse'' (ParameterDictionary [] [] (Some sRGB)) FileLoc_default], - 1, [])"
  by (simp add: eval_defs material_state_def sRGB_def)

section \<open>The fresh container\<close>

lemma diffuse_first_step:
  "diffuse_first s \<Longrightarrow> holds_after (step E d s) diffuse_first"
  by (cases d) (simp_all add: directive_defs gate_defs Let_def diffuse_first_def holds_after_if
        holds_after_case_option split: option.split)

lemma all_default_log [simp]:
  "all_default (log_Error loc m args s) = all_default s"
  "all_default (log_Warning loc m args s) = all_default s"
  by (simp_all add: all_default_def log_Error_def log_Warning_def)

lemma restore_scope_default:
  assumes "all_default s"
  shows "holds_after (restore_scope own other m1 m2 s) all_default"
  using assms
  by (simp add: restore_scope_def all_default_def holds_after_if list_all_butlast list_all_last)

lemma instance_entry_default:
  "\<forall>n p. instanceDefinitions s n = Some p \<longrightarrow> shapes_default p \<Longrightarrow> shapes_default (instance_entry s m)"
  by (simp add: instance_entry_def shapes_default_def split: option.split)

lemma Shape_default:
  assumes "all_default s"
  shows "holds_after (Shape E name params loc s) all_default"
proof -
  from assms have e: "shapes_default (instance_entry s m)" for m
    by (simp add: all_default_def instance_entry_default)
  have e': "instance_entry (s\<lparr>areaLights := x\<rparr>) m = instance_entry s m"
    "instance_entry (log_Warning loc w args s') m = instance_entry s' m" for x m w args s'
    by (simp_all add: instance_entry_def log_Warning_def)
  from assms e show ?thesis
    by (simp add: Shape_def gate_defs Let_def holds_after_if holds_after_case_option all_default_def
        shapes_default_def default_ref_def e' instance_entry_def split: option.split)
qed

lemma all_default_step:
  assumes "\<not> sets_material d" "all_default s"
  shows "holds_after (step E d s) all_default"
proof (cases d)
  case (Dir_AttributeEnd loc)
  with restore_scope_default [OF assms(2)] assms(2) show ?thesis
    by (simp add: AttributeEnd_def VERIFY_INITIALIZED_def VERIFY_OPTIONS_def VERIFY_WORLD_def holds_after_if)
next
  case (Dir_ObjectEnd loc)
  have "all_default (s\<lparr>currentInstance := None\<rparr>)"
    using assms(2) by (simp add: all_default_def)
  from restore_scope_default [OF this] Dir_ObjectEnd assms(2) show ?thesis
    by (simp add: ObjectEnd_def VERIFY_INITIALIZED_def VERIFY_OPTIONS_def VERIFY_WORLD_def holds_after_if)
next
  case (Dir_Shape name params loc)
  with Shape_default [OF assms(2)] show ?thesis by simp
next
  case (Dir_ObjectBegin name loc)
  with assms(2) show ?thesis
    by (simp add: ObjectBegin_def Attribute_def gate_defs Let_def holds_after_if all_default_def
        shapes_default_def default_ref_def)
qed (use assms in \<open>simp_all add: Identity_def Translate_def Transform_def ConcatTransform_def Rotate_def
        Scale_def LookAt_def CoordinateSystem_def CoordSysTransform_def ActiveTransformAll_def
        ActiveTransformEndTime_def ActiveTransformStartTime_def TransformTimes_def ColorSpace_def
        PixelFilter_def Film_def Sampler_def Accelerator_def Integrator_def Camera_def MakeNamedMedium_def
        MediumInterface_def WorldBegin_def AttributeBegin_def Attribute_def TransformBegin_def
        TransformEnd_def Texture_def MakeNamedMaterial_def LightSource_def AreaLightSource_def
        ReverseOrientation_def ObjectInstance_def WARN_IF_ANIMATED_TRANSFORM_def WorldEnd_closed
        gate_defs Let_def all_default_def default_ref_def holds_after_if holds_after_case_option
        split: option.split\<close>)

lemma all_default_new: "all_default (GeneralScene_new E)"
  by (simp add: all_default_def default_ref_def shapes_default_def GeneralScene_new_def GraphicsState_new_def)

lemma diffuse_first_new: "diffuse_first (GeneralScene_new E)"
  by (simp add: diffuse_first_def GeneralScene_new_def)

text \<open>
  Claim C10, as the code has it. A new container is in the options-block state, its
  material list holds the default \<open>diffuse\<close> material at index 0 and its current material
  index is 0. At every point of a run the state is not \<^verbatim>\<open>Uninitialized\<close> (so
  \<^verbatim>\<open>VERIFY_INITIALIZED\<close> always lets the body run) and the default material is still the
  first of the list. As long as the run has had neither a \<^verbatim>\<open>Material\<close> nor a
  \<^verbatim>\<open>NamedMaterial\<close> directive, the current reference and the reference of every shape
  created so far is index 0 with no name, the default material.
\<close>

theorem fresh_scene_defaults:
  assumes "run E ds (GeneralScene_new E) = Inr s"
  shows "currentApiState (GeneralScene_new E) = OptionsBlock
       \<and> materials (GeneralScene_new E)
           = [GeneralSceneEntity ''diffuse'' (ParameterDictionary [] [] (Some sRGB)) FileLoc_default]
       \<and> currentMaterialIndex (graphicsState (GeneralScene_new E)) = 0
       \<and> currentApiState s \<noteq> Uninitialized
       \<and> VERIFY_INITIALIZED func loc s rest = rest
       \<and> diffuse_first s
       \<and> (list_all (\<lambda>d. \<not> sets_material d) ds \<longrightarrow> all_default s)"
proof -
  have init: "currentApiState s \<noteq> Uninitialized"
    using assms by (rule initialized_reachable)
  have first: "diffuse_first s"
    by (rule run_invariant [where I = diffuse_first, OF diffuse_first_step diffuse_first_new assms])
  have "all_default s" if "list_all (\<lambda>d. \<not> sets_material d) ds"
    by (rule run_invariant_where [where I = all_default and Q = "\<lambda>d. \<not> sets_material d",
          OF all_default_step all_default_new that assms])
  with init first show ?thesis
    by (simp add: GeneralScene_new_def GraphicsState_new_def VERIFY_INITIALIZED_def)
qed

text \<open>A sphere in an attribute block, with no material directive before it.\<close>

theorem fresh_scene_defaults_witness:
  "list_all (\<lambda>d. \<not> sets_material d)
     [Dir_WorldBegin loc0, Dir_AttributeBegin loc0, Dir_Shape ''sphere'' [] loc0, Dir_AttributeEnd loc0]
   \<and> map_sum id shape_material_refs
       (run symE [Dir_WorldBegin loc0, Dir_AttributeBegin loc0, Dir_Shape ''sphere'' [] loc0,
                  Dir_AttributeEnd loc0] (GeneralScene_new symE))
       = Inr [(0, [])]
   \<and> map_sum id all_default
       (run symE [Dir_WorldBegin loc0, Dir_AttributeBegin loc0, Dir_Shape ''sphere'' [] loc0,
                  Dir_AttributeEnd loc0] (GeneralScene_new symE))
       = Inr True"
proof -
  let ?ds = "[Dir_WorldBegin loc0, Dir_AttributeBegin loc0, Dir_Shape ''sphere'' [] loc0, Dir_AttributeEnd loc0]"
  define s where "s = projr (run symE ?ds (GeneralScene_new symE))"
  have r: "run symE ?ds (GeneralScene_new symE) = Inr s"
    by (simp add: s_def eval_defs)
  have q: "list_all (\<lambda>d. \<not> sets_material d) ?ds" by simp
  have refs: "shape_material_refs s = [(0, [])]"
    by (simp add: s_def eval_defs shape_material_refs_def)
  from fresh_scene_defaults [OF r] q have "all_default s" by blast
  with refs q show ?thesis unfolding r by simp
qed

text \<open>The claim itself fails when \<^verbatim>\<open>NamedMaterial\<close> comes first: no \<^verbatim>\<open>Material\<close>
  directive has been issued, and the sphere refers to the named material.\<close>

theorem shape_after_NamedMaterial:
  "map_sum id shape_material_refs
     (run symE [Dir_WorldBegin loc0, Dir_NamedMaterial ''m'' loc0, Dir_Shape ''sphere'' [] loc0]
        (GeneralScene_new symE))
     = Inr [(- 1, ''m'')]"
  by (simp add: eval_defs shape_material_refs_def)

section \<open>Area lights\<close>

lemma returns_simps [simp]:
  "returns (Inl f) P = False"
  "returns (Inr s) P = P s"
  by (simp_all add: returns_def)

lemma returns_if:
  "returns (if c then a else b) P = (if c then returns a P else returns b P)"
  by simp

lemma returns_case_option:
  "returns (case x of None \<Rightarrow> a | Some y \<Rightarrow> b y) P
     = (case x of None \<Rightarrow> returns a P | Some y \<Rightarrow> returns (b y) P)"
  by (simp split: option.split)

lemma returnsE:
  assumes "returns r P"
  obtains s' where "r = Inr s'" "P s'"
  using assms by (cases r) simp_all

lemma Shape_effect:
  assumes "currentApiState s = WorldBlock"
  shows "returns (Shape E name params loc s)
           (\<lambda>s'. graphicsState s' = graphicsState s \<and> currentApiState s' = WorldBlock
                \<and> curTransform s' = curTransform s \<and> currentInstance s' = currentInstance s
                \<and> areaLights s' = (if areaLightName (graphicsState s) \<noteq> []
                                    then areaLights s @ [pending_light (graphicsState s)]
                                    else areaLights s)
                \<and> target_links E s' = target_links E s @
                     [if areaLightName (graphicsState s) \<noteq> [] then int (length (areaLights s)) else - 1])"
  using assms
  by (simp add: Shape_def gate_defs Let_def returns_if returns_case_option target_links_def
      CTMIsAnimated_def instance_entry_def pending_light_def split: option.split)

lemma shapes_run:
  assumes "currentApiState s = WorldBlock" "list_all is_Shape shs"
  shows "returns (run E shs s)
           (\<lambda>s'. graphicsState s' = graphicsState s \<and> currentApiState s' = WorldBlock
                \<and> curTransform s' = curTransform s \<and> currentInstance s' = currentInstance s
                \<and> areaLights s' = areaLights s @
                     (if areaLightName (graphicsState s) \<noteq> []
                      then replicate (length shs) (pending_light (graphicsState s)) else [])
                \<and> target_links E s' = target_links E s @
                     (if areaLightName (graphicsState s) \<noteq> []
                      then map int [length (areaLights s) ..< length (areaLights s) + length shs]
                      else replicate (length shs) (- 1)))"
  using assms
proof (induction shs arbitrary: s)
  case Nil
  then show ?case by simp
next
  case (Cons d ds)
  from Cons.prems(2) obtain name params loc where d: "d = Dir_Shape name params loc"
    by (cases d) simp_all
  from Cons.prems(2) have ds: "list_all is_Shape ds" by simp
  from Shape_effect [OF Cons.prems(1), of E name params loc]
  obtain s1 where s1: "Shape E name params loc s = Inr s1"
    and g1: "graphicsState s1 = graphicsState s" and w1: "currentApiState s1 = WorldBlock"
    and c1: "curTransform s1 = curTransform s" and i1: "currentInstance s1 = currentInstance s"
    and a1: "areaLights s1 = (if areaLightName (graphicsState s) \<noteq> []
                              then areaLights s @ [pending_light (graphicsState s)]
                              else areaLights s)"
    and t1: "target_links E s1 = target_links E s @
               [if areaLightName (graphicsState s) \<noteq> [] then int (length (areaLights s)) else - 1]"
    by (rule returnsE) blast
  from Cons.IH [OF w1 ds]
  obtain s' where s': "run E ds s1 = Inr s'"
    and g': "graphicsState s' = graphicsState s1" and w': "currentApiState s' = WorldBlock"
    and c': "curTransform s' = curTransform s1" and i': "currentInstance s' = currentInstance s1"
    and a': "areaLights s' = areaLights s1 @
               (if areaLightName (graphicsState s1) \<noteq> []
                then replicate (length ds) (pending_light (graphicsState s1)) else [])"
    and t': "target_links E s' = target_links E s1 @
               (if areaLightName (graphicsState s1) \<noteq> []
                then map int [length (areaLights s1) ..< length (areaLights s1) + length ds]
                else replicate (length ds) (- 1))"
    by (rule returnsE) blast
  have r: "run E (d # ds) s = Inr s'" using d s1 s' by simp
  define a where "a = length (areaLights s)"
  have up: "int a # map int [Suc a ..< Suc a + length ds] = map int [a ..< a + length (d # ds)]"
    by (simp add: upt_rec [of a] del: upt_Suc)
  have lights: "areaLights s' = areaLights s @
      (if areaLightName (graphicsState s) \<noteq> []
       then replicate (length (d # ds)) (pending_light (graphicsState s)) else [])"
    using a' by (simp add: g1 a1)
  have links: "target_links E s' = target_links E s @
      (if areaLightName (graphicsState s) \<noteq> []
       then map int [a ..< a + length (d # ds)]
       else replicate (length (d # ds)) (- 1))"
  proof (cases "areaLightName (graphicsState s) \<noteq> []")
    case True
    then have "target_links E s' = target_links E s @ (int a # map int [Suc a ..< Suc a + length ds])"
      using t' by (simp add: g1 a1 t1 a_def)
    with True show ?thesis by (simp only: up if_True not_False_eq_True simp_thms)
  next
    case False
    then show ?thesis using t' by (simp add: g1 a1 t1)
  qed
  from g' w' c' i' lights links show ?case
    unfolding r a_def by (simp only: returns_simps g1 c1 i1 simp_thms)
qed

text \<open>
  Claim C6, as the code has it. In the world block, whenever the pending area-light name
  of the graphics state is not empty, \<^verbatim>\<open>Shape\<close> appends to the area lights one entity
  with the pending name, parameters and location, the shape it creates carries that
  entity's index, and the graphics state, the pending values with it, is left as it
  was. So after \<^verbatim>\<open>AreaLightSource\<close> with a name that is not empty, each of any number
  of following \<^verbatim>\<open>Shape\<close> directives gets an entity of its own, and the values are still
  pending after them. The empty name is the value that means no area light: after
  \<^verbatim>\<open>AreaLightSource\<close> with an empty name the shapes append no area light and carry the
  index \<open>-1\<close>.
\<close>

theorem area_light_pending:
  assumes "currentApiState s = WorldBlock" and "list_all is_Shape shs"
  shows "returns (Shape E sname sparams sloc s)
           (\<lambda>s'. graphicsState s' = graphicsState s \<and> currentApiState s' = WorldBlock
                \<and> curTransform s' = curTransform s \<and> currentInstance s' = currentInstance s
                \<and> areaLights s' = (if areaLightName (graphicsState s) \<noteq> []
                                    then areaLights s @ [pending_light (graphicsState s)]
                                    else areaLights s)
                \<and> target_links E s' = target_links E s @
                     [if areaLightName (graphicsState s) \<noteq> [] then int (length (areaLights s)) else - 1])
       \<and> (name \<noteq> [] \<longrightarrow>
          returns (run E (Dir_AreaLightSource name params loc # shs) s)
            (\<lambda>s'. areaLightName (graphicsState s') = name
                 \<and> areaLightParams (graphicsState s')
                     = ParameterDictionary params (lightAttributes (graphicsState s))
                         (Some (colorSpace (graphicsState s)))
                 \<and> areaLightLoc (graphicsState s') = loc
                 \<and> areaLights s' = areaLights s @
                       replicate (length shs)
                         (GeneralSceneEntity name
                            (ParameterDictionary params (lightAttributes (graphicsState s))
                               (Some (colorSpace (graphicsState s)))) loc)
                 \<and> target_links E s' = target_links E s @
                       map int [length (areaLights s) ..< length (areaLights s) + length shs]))
       \<and> returns (run E (Dir_AreaLightSource [] params loc # shs) s)
            (\<lambda>s'. areaLightName (graphicsState s') = []
                 \<and> areaLights s' = areaLights s
                 \<and> target_links E s' = target_links E s @ replicate (length shs) (- 1))"
proof -
  define s0 where "s0 = (\<lambda>n. s\<lparr>graphicsState := (graphicsState s)
      \<lparr>areaLightName := n,
       areaLightParams := ParameterDictionary params (lightAttributes (graphicsState s))
                            (Some (colorSpace (graphicsState s))),
       areaLightLoc := loc\<rparr>\<rparr>)"
  have first: "run E (Dir_AreaLightSource n params loc # shs) s = run E shs (s0 n)" for n
    using assms(1) by (simp add: AreaLightSource_def gate_defs s0_def)
  have w: "currentApiState (s0 n) = WorldBlock" for n
    using assms(1) by (simp add: s0_def)
  have frame: "areaLights (s0 n) = areaLights s" "target_links E (s0 n) = target_links E s"
    "areaLightName (graphicsState (s0 n)) = n"
    "pending_light (graphicsState (s0 n))
       = GeneralSceneEntity n (ParameterDictionary params (lightAttributes (graphicsState s))
           (Some (colorSpace (graphicsState s)))) loc"
    "areaLightParams (graphicsState (s0 n))
       = ParameterDictionary params (lightAttributes (graphicsState s)) (Some (colorSpace (graphicsState s)))"
    "areaLightLoc (graphicsState (s0 n)) = loc" for n
    by (simp_all add: s0_def target_links_def CTMIsAnimated_def instance_entry_def pending_light_def
        split: option.split)
  have run_n: "returns (run E shs (s0 n))
       (\<lambda>s'. graphicsState s' = graphicsState (s0 n)
            \<and> areaLights s' = areaLights s @
                 (if n \<noteq> [] then replicate (length shs) (pending_light (graphicsState (s0 n))) else [])
            \<and> target_links E s' = target_links E s @
                 (if n \<noteq> []
                  then map int [length (areaLights s) ..< length (areaLights s) + length shs]
                  else replicate (length shs) (- 1)))" for n
    using shapes_run [OF w [of n] assms(2), where E = E] unfolding frame
    by (cases "run E shs (s0 n)") simp_all
  show ?thesis
  proof (intro conjI impI)
    show "returns (Shape E sname sparams sloc s)
           (\<lambda>s'. graphicsState s' = graphicsState s \<and> currentApiState s' = WorldBlock
                \<and> curTransform s' = curTransform s \<and> currentInstance s' = currentInstance s
                \<and> areaLights s' = (if areaLightName (graphicsState s) \<noteq> []
                                    then areaLights s @ [pending_light (graphicsState s)]
                                    else areaLights s)
                \<and> target_links E s' = target_links E s @
                     [if areaLightName (graphicsState s) \<noteq> [] then int (length (areaLights s)) else - 1])"
      by (rule Shape_effect [OF assms(1)])
  next
    assume "name \<noteq> []"
    with run_n [of name] show "returns (run E (Dir_AreaLightSource name params loc # shs) s)
            (\<lambda>s'. areaLightName (graphicsState s') = name
                 \<and> areaLightParams (graphicsState s')
                     = ParameterDictionary params (lightAttributes (graphicsState s))
                         (Some (colorSpace (graphicsState s)))
                 \<and> areaLightLoc (graphicsState s') = loc
                 \<and> areaLights s' = areaLights s @
                       replicate (length shs)
                         (GeneralSceneEntity name
                            (ParameterDictionary params (lightAttributes (graphicsState s))
                               (Some (colorSpace (graphicsState s)))) loc)
                 \<and> target_links E s' = target_links E s @
                       map int [length (areaLights s) ..< length (areaLights s) + length shs])"
      unfolding first by (cases "run E shs (s0 name)") (simp_all add: frame)
  next
    from run_n [of "[]"] show "returns (run E (Dir_AreaLightSource [] params loc # shs) s)
            (\<lambda>s'. areaLightName (graphicsState s') = []
                 \<and> areaLights s' = areaLights s
                 \<and> target_links E s' = target_links E s @ replicate (length shs) (- 1))"
      unfolding first by (cases "run E shs (s0 [])") (simp_all add: frame)
  qed
qed

text \<open>Two shapes after one \<^verbatim>\<open>AreaLightSource\<close> in an attribute block give two area
  lights, linked by the indices 0 and 1, and the name is still pending. With the
  directive repeated before the second shape and the block closed, the two area lights
  are the same and the restored graphics state has no pending name.\<close>

theorem area_light_pending_witness:
  "map_sum id (lights_and_links symE)
     (run symE ([Dir_WorldBegin loc0, Dir_AttributeBegin loc0] @
                 Dir_AreaLightSource ''diffuse'' [] loc0 #
                 [Dir_Shape ''sphere'' [] loc0, Dir_Shape ''disk'' [] loc0])
        (GeneralScene_new symE))
     = Inr ([GeneralSceneEntity ''diffuse'' (ParameterDictionary [] [] (Some sRGB)) loc0,
             GeneralSceneEntity ''diffuse'' (ParameterDictionary [] [] (Some sRGB)) loc0],
            [0, 1], ''diffuse'')
   \<and> map_sum id (lights_and_links symE)
     (run symE [Dir_WorldBegin loc0, Dir_AttributeBegin loc0,
                Dir_AreaLightSource ''diffuse'' [] loc0, Dir_Shape ''sphere'' [] loc0,
                Dir_AreaLightSource ''diffuse'' [] loc0, Dir_Shape ''disk'' [] loc0,
                Dir_AttributeEnd loc0]
        (GeneralScene_new symE))
     = Inr ([GeneralSceneEntity ''diffuse'' (ParameterDictionary [] [] (Some sRGB)) loc0,
             GeneralSceneEntity ''diffuse'' (ParameterDictionary [] [] (Some sRGB)) loc0],
            [0, 1], [])"
proof -
  let ?pre = "[Dir_WorldBegin loc0, Dir_AttributeBegin loc0]"
  let ?shs = "[Dir_Shape ''sphere'' [] loc0, Dir_Shape ''disk'' [] loc0]"
  define s where "s = projr (run symE ?pre (GeneralScene_new symE))"
  have r: "run symE ?pre (GeneralScene_new symE) = Inr s"
    by (simp add: s_def eval_defs)
  have w: "currentApiState s = WorldBlock" and sh: "list_all is_Shape ?shs"
    and n: "''diffuse'' \<noteq> []"
    and s_vals: "areaLights s = []" "target_links symE s = []"
      "lightAttributes (graphicsState s) = []" "colorSpace (graphicsState s) = sRGB"
    by (simp_all add: s_def eval_defs target_links_def)
  from area_light_pending [OF w sh, where name = "''diffuse''" and E = symE and params = "[]" and loc = loc0] n
  have "returns (run symE (Dir_AreaLightSource ''diffuse'' [] loc0 # ?shs) s)
          (\<lambda>s'. lights_and_links symE s' =
             ([GeneralSceneEntity ''diffuse'' (ParameterDictionary [] [] (Some sRGB)) loc0,
               GeneralSceneEntity ''diffuse'' (ParameterDictionary [] [] (Some sRGB)) loc0],
              [0, 1], ''diffuse''))"
    unfolding s_vals
    by (cases "run symE (Dir_AreaLightSource ''diffuse'' [] loc0 # ?shs) s")
       (simp_all add: lights_and_links_def upt_rec)
  then have first: "map_sum id (lights_and_links symE)
      (run symE (?pre @ Dir_AreaLightSource ''diffuse'' [] loc0 # ?shs) (GeneralScene_new symE))
      = Inr ([GeneralSceneEntity ''diffuse'' (ParameterDictionary [] [] (Some sRGB)) loc0,
              GeneralSceneEntity ''diffuse'' (ParameterDictionary [] [] (Some sRGB)) loc0],
             [0, 1], ''diffuse'')"
    unfolding run_append r
    by (cases "run symE (Dir_AreaLightSource ''diffuse'' [] loc0 # ?shs) s") simp_all
  have second: "map_sum id (lights_and_links symE)
     (run symE [Dir_WorldBegin loc0, Dir_AttributeBegin loc0,
                Dir_AreaLightSource ''diffuse'' [] loc0, Dir_Shape ''sphere'' [] loc0,
                Dir_AreaLightSource ''diffuse'' [] loc0, Dir_Shape ''disk'' [] loc0,
                Dir_AttributeEnd loc0]
        (GeneralScene_new symE))
     = Inr ([GeneralSceneEntity ''diffuse'' (ParameterDictionary [] [] (Some sRGB)) loc0,
             GeneralSceneEntity ''diffuse'' (ParameterDictionary [] [] (Some sRGB)) loc0],
            [0, 1], [])"
    by (simp add: eval_defs lights_and_links_def target_links_def sRGB_def)
  from first second show ?thesis by (rule conjI)
qed

text \<open>The claim itself fails for the empty name: \<^verbatim>\<open>AreaLightSource\<close> has set the pending
  name, parameters and location, and the following \<^verbatim>\<open>Shape\<close> appends no area light and
  carries the index \<open>-1\<close>.\<close>

theorem AreaLightSource_empty_name:
  "map_sum id (lights_and_links symE)
     (run symE [Dir_WorldBegin loc0, Dir_AreaLightSource [] [] loc0, Dir_Shape ''sphere'' [] loc0]
        (GeneralScene_new symE))
     = Inr ([], [- 1], [])"
  by (simp add: eval_defs lights_and_links_def target_links_def)

section \<open>Attribute blocks restore the graphics state\<close>

lemma step_other_frame:
  assumes "opens d = None" "closes d = None" "currentApiState s = WorldBlock" "\<not> is_WorldEnd d"
  shows "holds_after (step E d s)
           (\<lambda>s1. currentApiState s1 = WorldBlock
                \<and> pushStack s1 = pushStack s \<and> pushedTransforms s1 = pushedTransforms s
                \<and> pushedActiveTransformBits s1 = pushedActiveTransformBits s
                \<and> pushedGraphicsStates s1 = pushedGraphicsStates s)"
  using assms
  by (cases d) (simp_all add: directive_defs gate_defs Let_def holds_after_if holds_after_case_option
        split: option.split)

lemma step_open_frame:
  assumes "opens d = Some k" "currentApiState s = WorldBlock"
  shows "holds_after (step E d s)
           (\<lambda>s1. currentApiState s1 = WorldBlock
                \<and> (\<exists>l. pushStack s1 = pushStack s @ [(k, l)])
                \<and> pushedTransforms s1 = pushedTransforms s @ [curTransform s]
                \<and> pushedActiveTransformBits s1 = pushedActiveTransformBits s @ [activeTransformBits s]
                \<and> pushedGraphicsStates s1 =
                    (if k = CHR ''t'' then pushedGraphicsStates s
                     else pushedGraphicsStates s @ [graphicsState s]))"
  using assms
  by (cases d) (auto simp add: AttributeBegin_def TransformBegin_def ObjectBegin_def Attribute_def
        gate_defs Let_def holds_after_if)

lemma step_close_frame:
  assumes "closes d = Some k" "currentApiState s = WorldBlock"
    and "pushStack s = P @ [(k, l)]" "pushedTransforms s = T @ [x]"
    and "pushedActiveTransformBits s = B @ [b]"
    and "k \<noteq> CHR ''t'' \<Longrightarrow> pushedGraphicsStates s = G @ [g]"
  shows "holds_after (step E d s)
           (\<lambda>s1. currentApiState s1 = WorldBlock
                \<and> pushStack s1 = P \<and> pushedTransforms s1 = T \<and> pushedActiveTransformBits s1 = B
                \<and> curTransform s1 = x \<and> activeTransformBits s1 = b
                \<and> (if k = CHR ''t''
                    then pushedGraphicsStates s1 = pushedGraphicsStates s \<and> graphicsState s1 = graphicsState s
                    else pushedGraphicsStates s1 = G \<and> graphicsState s1 = g))"
proof (cases d)
  case (Dir_AttributeEnd loc)
  with assms show ?thesis
    by (auto simp add: AttributeEnd_def restore_scope_def gate_defs holds_after_if)
next
  case (Dir_TransformEnd loc)
  with assms show ?thesis
    by (auto simp add: TransformEnd_def gate_defs holds_after_if)
next
  case (Dir_ObjectEnd loc)
  with assms show ?thesis
    by (auto simp add: ObjectEnd_def restore_scope_def gate_defs holds_after_if)
qed (use assms(1) in simp_all)

lemma snoc_of_length:
  assumes "length xs = Suc n"
  obtains ys y where "xs = ys @ [y]" "length ys = n"
  using assms by (cases xs rule: rev_cases) simp_all

lemma nested_run:
  assumes "well_nested st ds" "currentApiState s = WorldBlock" "run E ds s = Inr s'"
    and "pushStack s = P @ M" "map fst M = rev st"
    and "pushedTransforms s = T @ TM" "length TM = length st"
    and "pushedActiveTransformBits s = B @ BM" "length BM = length st"
    and "pushedGraphicsStates s = G @ GM" "length GM = length (filter (\<lambda>k. k \<noteq> CHR ''t'') st)"
  shows "currentApiState s' = WorldBlock \<and> pushStack s' = P \<and> pushedTransforms s' = T
       \<and> pushedActiveTransformBits s' = B \<and> pushedGraphicsStates s' = G"
  using assms
proof (induction ds arbitrary: st s M TM BM GM)
  case Nil
  then show ?case by simp
next
  case (Cons d ds)
  note world = Cons.prems(2)
  from Cons.prems(1) have nw: "\<not> is_WorldEnd d" by (simp split: if_splits)
  with Cons.prems(1) have wn: "case opens d of
           None \<Rightarrow>
             (case closes d of None \<Rightarrow> well_nested st ds
              | Some k \<Rightarrow> (case st of [] \<Rightarrow> False | k' # st' \<Rightarrow> k = k' \<and> well_nested st' ds))
         | Some k \<Rightarrow> well_nested (k # st) ds"
    by simp
  from Cons.prems(3) obtain s1 where s1: "step E d s = Inr s1" and rest: "run E ds s1 = Inr s'"
    by (cases "step E d s") simp_all
  consider (pushes) k where "opens d = Some k"
    | (pops) k where "opens d = None" "closes d = Some k"
    | (plain) "opens d = None" "closes d = None"
    by (cases "opens d"; cases "closes d") auto
  then show ?case
  proof cases
    case pushes
    from wn pushes have wn': "well_nested (k # st) ds" by simp
    from step_open_frame [OF pushes world, of E] s1
    obtain l where w1: "currentApiState s1 = WorldBlock"
      and p1: "pushStack s1 = pushStack s @ [(k, l)]"
      and t1: "pushedTransforms s1 = pushedTransforms s @ [curTransform s]"
      and b1: "pushedActiveTransformBits s1 = pushedActiveTransformBits s @ [activeTransformBits s]"
      and g1: "pushedGraphicsStates s1 =
                 (if k = CHR ''t'' then pushedGraphicsStates s else pushedGraphicsStates s @ [graphicsState s])"
      by auto
    show ?thesis
    proof (rule Cons.IH [OF wn' w1 rest])
      show "pushStack s1 = P @ (M @ [(k, l)])" using p1 Cons.prems(4) by simp
      show "map fst (M @ [(k, l)]) = rev (k # st)" using Cons.prems(5) by simp
      show "pushedTransforms s1 = T @ (TM @ [curTransform s])" using t1 Cons.prems(6) by simp
      show "length (TM @ [curTransform s]) = length (k # st)" using Cons.prems(7) by simp
      show "pushedActiveTransformBits s1 = B @ (BM @ [activeTransformBits s])"
        using b1 Cons.prems(8) by simp
      show "length (BM @ [activeTransformBits s]) = length (k # st)" using Cons.prems(9) by simp
      show "pushedGraphicsStates s1 = G @ (if k = CHR ''t'' then GM else GM @ [graphicsState s])"
        using g1 Cons.prems(10) by simp
      show "length (if k = CHR ''t'' then GM else GM @ [graphicsState s])
              = length (filter (\<lambda>k. k \<noteq> CHR ''t'') (k # st))"
        using Cons.prems(11) by simp
    qed
  next
    case pops
    from wn pops obtain st' where st: "st = k # st'" and wn': "well_nested st' ds"
      by (cases st) simp_all
    from Cons.prems(5) st obtain M0 m where M: "M = M0 @ [m]" and M0: "map fst M0 = rev st'"
      and m: "fst m = k"
      by (cases M rule: rev_cases) auto
    obtain l where ml: "m = (k, l)" using m by (cases m) simp
    from Cons.prems(7) st obtain TM0 x where TM: "TM = TM0 @ [x]" "length TM0 = length st'"
      by (auto elim: snoc_of_length)
    from Cons.prems(9) st obtain BM0 b where BM: "BM = BM0 @ [b]" "length BM0 = length st'"
      by (auto elim: snoc_of_length)
    show ?thesis
    proof (cases "k = CHR ''t''")
      case True
      from step_close_frame [OF pops(2) world, of "P @ M0" l "T @ TM0" x "B @ BM0" b _ _ E] s1 True
      have w1: "currentApiState s1 = WorldBlock" and p1: "pushStack s1 = P @ M0"
        and t1: "pushedTransforms s1 = T @ TM0" and b1: "pushedActiveTransformBits s1 = B @ BM0"
        and g1: "pushedGraphicsStates s1 = pushedGraphicsStates s"
        using Cons.prems(4,6,8) M ml TM BM by simp_all
      show ?thesis
      proof (rule Cons.IH [OF wn' w1 rest p1 M0 t1 TM(2) b1 BM(2)])
        show "pushedGraphicsStates s1 = G @ GM" using g1 Cons.prems(10) by simp
        show "length GM = length (filter (\<lambda>k. k \<noteq> CHR ''t'') st')"
          using Cons.prems(11) st True by simp
      qed
    next
      case False
      from Cons.prems(11) st False obtain GM0 g where GM: "GM = GM0 @ [g]"
        "length GM0 = length (filter (\<lambda>k. k \<noteq> CHR ''t'') st')"
        by (auto elim: snoc_of_length)
      from step_close_frame [OF pops(2) world, of "P @ M0" l "T @ TM0" x "B @ BM0" b "G @ GM0" g E] s1 False
      have w1: "currentApiState s1 = WorldBlock" and p1: "pushStack s1 = P @ M0"
        and t1: "pushedTransforms s1 = T @ TM0" and b1: "pushedActiveTransformBits s1 = B @ BM0"
        and g1: "pushedGraphicsStates s1 = G @ GM0"
        using Cons.prems(4,6,8,10) M ml TM BM GM by simp_all
      show ?thesis
        by (rule Cons.IH [OF wn' w1 rest p1 M0 t1 TM(2) b1 BM(2) g1 GM(2)])
    qed
  next
    case plain
    from wn plain have wn': "well_nested st ds" by simp
    from step_other_frame [OF plain world nw, of E] s1
    have w1: "currentApiState s1 = WorldBlock" and p1: "pushStack s1 = pushStack s"
      and t1: "pushedTransforms s1 = pushedTransforms s"
      and b1: "pushedActiveTransformBits s1 = pushedActiveTransformBits s"
      and g1: "pushedGraphicsStates s1 = pushedGraphicsStates s"
      by simp_all
    show ?thesis
    proof (rule Cons.IH [OF wn' w1 rest _ Cons.prems(5) _ Cons.prems(7) _ Cons.prems(9) _ Cons.prems(11)])
      show "pushStack s1 = P @ M" using p1 Cons.prems(4) by simp
      show "pushedTransforms s1 = T @ TM" using t1 Cons.prems(6) by simp
      show "pushedActiveTransformBits s1 = B @ BM" using b1 Cons.prems(8) by simp
      show "pushedGraphicsStates s1 = G @ GM" using g1 Cons.prems(10) by simp
    qed
  qed
qed

text \<open>
  Claim C5. In the world block, let \<^verbatim>\<open>AttributeBegin\<close> be followed by any well-nested
  sequence of directives and then by \<^verbatim>\<open>AttributeEnd\<close>, and let the run reach its end
  without a fatal error; a \<^verbatim>\<open>WorldEnd\<close>, which closes every open block, is no part of a
  well-nested sequence. Then the graphics state after the \<^verbatim>\<open>AttributeEnd\<close> is the
  graphics state before the \<^verbatim>\<open>AttributeBegin\<close>, field by field.
\<close>

theorem AttributeBegin_End_restores:
  assumes "currentApiState s = WorldBlock" and "well_nested [] ds"
    and "run E (Dir_AttributeBegin l1 # ds @ [Dir_AttributeEnd l2]) s = Inr s'"
  shows "graphicsState s' = graphicsState s"
proof -
  define s1 where "s1 = s\<lparr>pushedGraphicsStates := pushedGraphicsStates s @ [graphicsState s],
               pushedTransforms := pushedTransforms s @ [curTransform s],
               pushedActiveTransformBits := pushedActiveTransformBits s @ [activeTransformBits s],
               pushStack := pushStack s @ [(CHR ''a'', l1)]\<rparr>"
  have b: "step E (Dir_AttributeBegin l1) s = Inr s1"
    using assms(1) by (simp add: AttributeBegin_def gate_defs s1_def)
  have w1: "currentApiState s1 = WorldBlock" using assms(1) by (simp add: s1_def)
  from assms(3) b have "run E (ds @ [Dir_AttributeEnd l2]) s1 = Inr s'" by simp
  then obtain s2 where s2: "run E ds s1 = Inr s2" and e: "step E (Dir_AttributeEnd l2) s2 = Inr s'"
    unfolding run_append by (cases "run E ds s1") (simp_all split: sum.splits)
  from nested_run [OF assms(2) w1 s2, of "pushStack s1" "[]" "pushedTransforms s1" "[]"
      "pushedActiveTransformBits s1" "[]" "pushedGraphicsStates s1" "[]"]
  have w2: "currentApiState s2 = WorldBlock" and p2: "pushStack s2 = pushStack s1"
    and t2: "pushedTransforms s2 = pushedTransforms s1"
    and b2: "pushedActiveTransformBits s2 = pushedActiveTransformBits s1"
    and g2: "pushedGraphicsStates s2 = pushedGraphicsStates s1"
    by simp_all
  from step_close_frame [of "Dir_AttributeEnd l2" "CHR ''a''" s2 "pushStack s" l1
      "pushedTransforms s" "curTransform s" "pushedActiveTransformBits s" "activeTransformBits s"
      "pushedGraphicsStates s" "graphicsState s" E] e
  show ?thesis
    by (simp add: w2 p2 t2 b2 g2 s1_def)
qed

text \<open>A block whose body changes the graphics state: before the \<^verbatim>\<open>AttributeEnd\<close> the
  graphics state is not the one the block started with, after it it is.\<close>

theorem AttributeBegin_End_restores_witness:
  "well_nested [] block_body
   \<and> map_sum id graphicsState (run symE [Dir_WorldBegin loc0] (GeneralScene_new symE))
       = Inr GraphicsState_new
   \<and> map_sum id graphicsState
       (run symE ([Dir_WorldBegin loc0] @ Dir_AttributeBegin loc0 # block_body) (GeneralScene_new symE))
       \<noteq> Inr GraphicsState_new
   \<and> map_sum id graphicsState
       (run symE ([Dir_WorldBegin loc0] @ Dir_AttributeBegin loc0 # block_body @ [Dir_AttributeEnd loc0])
          (GeneralScene_new symE))
       = Inr GraphicsState_new"
proof -
  define s where "s = projr (run symE [Dir_WorldBegin loc0] (GeneralScene_new symE))"
  have r: "run symE [Dir_WorldBegin loc0] (GeneralScene_new symE) = Inr s"
    by (simp add: s_def eval_defs)
  have w: "currentApiState s = WorldBlock" and g: "graphicsState s = GraphicsState_new"
    by (simp_all add: s_def eval_defs)
  have n: "well_nested [] block_body" by (simp add: block_body_def)
  define s' where
    "s' = projr (run symE (Dir_AttributeBegin loc0 # block_body @ [Dir_AttributeEnd loc0]) s)"
  have r': "run symE (Dir_AttributeBegin loc0 # block_body @ [Dir_AttributeEnd loc0]) s = Inr s'"
    by (simp add: s'_def s_def block_body_def eval_defs)
  from AttributeBegin_End_restores [OF w n r'] g
  have after: "graphicsState s' = GraphicsState_new" by simp
  have before: "map_sum id graphicsState
       (run symE ([Dir_WorldBegin loc0] @ Dir_AttributeBegin loc0 # block_body) (GeneralScene_new symE))
       \<noteq> Inr GraphicsState_new"
    by (simp add: block_body_def eval_defs)
  have fin: "run symE ([Dir_WorldBegin loc0] @ ds) (GeneralScene_new symE) = run symE ds s" for ds
    by (simp only: run_append r sum.case)
  have c2: "map_sum id graphicsState (run symE [Dir_WorldBegin loc0] (GeneralScene_new symE))
              = Inr GraphicsState_new"
    unfolding r using g by simp
  have c4: "map_sum id graphicsState
       (run symE ([Dir_WorldBegin loc0] @ Dir_AttributeBegin loc0 # block_body @ [Dir_AttributeEnd loc0])
          (GeneralScene_new symE))
       = Inr GraphicsState_new"
    unfolding fin r' using after by simp
  from n c2 before c4 show ?thesis by (intro conjI)
qed



end
